theory Spec2Isabelle
  imports Complex_Main "HOL-Library.Multiset"
begin

section \<open>Python values and exceptions\<close>

text \<open>
  The repository is Python over numpy, scipy and pandas. Floating-point numbers are
  idealised as the reals: a float that numpy would print as a finite number is
  \<open>Finite r\<close>, and a float that is not finite is \<open>NaN\<close>; every value that the
  modelled code returns as \<open>NaN\<close> is a \<open>nan\<close> (from the logarithm of a
  non-positive number, or from the mean of an empty array). Exceptions are values of the
  type \<open>error\<close>; an exception raised with a message, a name or a key carries it.
  Rounding is not modelled, and the methods of \<open>MWC\<close> are formulas over the reals.
  Overflow is modelled where the outcome of a call, returning or raising, is the
  subject: in \<open>SimpleRepression.saturation\<close>, whose call of
  \<open>self.mwc.saturation()\<close> evaluates a power of Python floats, which raises
  OverflowError beyond the largest float where numpy would give \<open>inf\<close>.
\<close>

datatype error
  = ValueError string
  | RuntimeError string
  | TypeError
  | NameError string
  | KeyError string
  | IndexError
  | ZeroDivisionError
  | OverflowError
  | AttributeError

datatype npfloat = Finite real | NaN

section \<open>code/analysis/cal\_factor\_EDA.py: the log posterior\<close>

text \<open>
  \<open>np_add\<close> is numpy's \<open>+\<close> on two one-dimensional arrays: elementwise on equal
  lengths, a length-one operand is broadcast, and any other pair of shapes makes numpy
  raise (\<open>None\<close> here, turned into the \<open>ValueError\<close> by the caller).
\<close>

definition np_add :: "real list \<Rightarrow> real list \<Rightarrow> real list option" where
  "np_add xs ys =
     (if length xs = length ys then Some (map2 (+) xs ys)
      else if length xs = 1 then Some (map (\<lambda>y. hd xs + y) ys)
      else if length ys = 1 then Some (map (\<lambda>x. x + hd ys) xs)
      else None)"

text \<open>
  \<open>scipy.stats.halfnorm(loc, scale).logpdf(x)\<close> on its support \<open>x \<ge> loc\<close>: with
  \<open>y = (x - loc) / scale\<close> it is \<open>0.5 * log(2 / pi) - y * y / 2 - log(scale)\<close>.
\<close>

definition halfnorm_logpdf :: "real \<Rightarrow> real \<Rightarrow> real \<Rightarrow> real" where
  "halfnorm_logpdf loc scale x =
     (let y = (x - loc) / scale in 0.5 * ln (2 / pi) - y * y / 2 - ln scale)"

text \<open>
  \<open>log_posterior\<close>, statement by statement. \<open>scipy.special.gammaln\<close> is a library
  function and is the parameter \<open>gammaln\<close>. The guard on negative intensities comes
  first, as in the source; the sum \<open>I1 + I2\<close> is the first statement that can fail on
  the shapes. For \<open>alpha \<le> 0\<close> the term \<open>-len(I1) * np.log(alpha)\<close> is \<open>nan\<close>
  (numpy warns and does not raise), and so is the returned sum.
\<close>

definition log_posterior ::
  "(real \<Rightarrow> real) \<Rightarrow> real \<Rightarrow> real list \<Rightarrow> real list \<Rightarrow> bool \<Rightarrow> error + npfloat" where
  "log_posterior gammaln alpha I1 I2 negative =
     (let prefactor = (if negative = True then - 1 else 1) in
      if (\<exists>x \<in> set I1. x < 0) \<or> (\<exists>x \<in> set I2. x < 0)
      then Inl (ValueError ''Negative values in I1 or I2'')
      else
        (case np_add I1 I2 of
           None \<Rightarrow> Inl (ValueError ''operands could not be broadcast together'')
         | Some I12 \<Rightarrow>
             if alpha \<le> 0 then Inr NaN
             else
               (let n1 = map (\<lambda>x. x / alpha) I1;
                    n2 = map (\<lambda>x. x / alpha) I2;
                    ntot = map (\<lambda>x. x / alpha) I12;
                    binom = sum_list (map (\<lambda>x. gammaln (x + 1)) ntot)
                            - sum_list (map (\<lambda>x. gammaln (x + 1)) n1)
                            - sum_list (map (\<lambda>x. gammaln (x + 1)) n2);
                    log_prior = halfnorm_logpdf 0 500 alpha;
                    prob = - sum_list ntot * ln 2;
                    cov = - real (length I1) * ln alpha;
                    logp = prefactor * (prob + cov + binom + log_prior)
                in Inr (Finite logp))))"

text \<open>What a caller reads from a call that returned a finite number.\<close>

fun returned :: "error + npfloat \<Rightarrow> real option" where
  "returned (Inr (Finite v)) = Some v"
| "returned _ = None"

text \<open>Multiplying the outcome of a call by \<open>-1\<close>: an exception or a \<open>nan\<close> stays.\<close>

fun negated :: "error + npfloat \<Rightarrow> error + npfloat" where
  "negated (Inr (Finite v)) = Inr (Finite (- 1 * v))"
| "negated r = r"

text \<open>
  The posterior as the notes above the function write it,
  \<open>g(alpha | [I1, I2]) = g(alpha) * alpha^(-k) * prod_i Gamma((I1_i + I2_i)/alpha + 1)
  / (Gamma(I1_i/alpha + 1) * Gamma(I2_i/alpha + 1)) * 2^(-(I1_i + I2_i)/alpha)\<close>,
  with the half-normal density of location 0 and scale 500 as the prior \<open>g(alpha)\<close>.
  The Gamma function is the parameter \<open>G\<close>.
\<close>

definition halfnorm_pdf :: "real \<Rightarrow> real \<Rightarrow> real \<Rightarrow> real" where
  "halfnorm_pdf loc scale x =
     sqrt (2 / pi) / scale * exp (- (((x - loc) / scale) ^ 2) / 2)"

definition closed_form_posterior ::
  "(real \<Rightarrow> real) \<Rightarrow> real \<Rightarrow> real list \<Rightarrow> real list \<Rightarrow> real" where
  "closed_form_posterior G alpha I1 I2 =
     halfnorm_pdf 0 500 alpha * (1 / alpha ^ length I1)
     * prod_list (map2 (\<lambda>a b. G ((a + b) / alpha + 1)
                               / (G (a / alpha + 1) * G (b / alpha + 1))
                               * 2 powr (- ((a + b) / alpha))) I1 I2)"

text \<open>
  The logarithm of the Gamma function at the positive integers, \<open>ln ((n - 1)!)\<close>,
  extended by rounding down: a concrete \<open>gammaln\<close> to evaluate the model with.
\<close>

definition gamma_floor :: "real \<Rightarrow> real" where
  "gamma_floor x = fact (nat \<lfloor>x\<rfloor> - 1)"

definition gammaln_floor :: "real \<Rightarrow> real" where
  "gammaln_floor x = ln (gamma_floor x)"

subsection \<open>Grid evaluation and normalisation\<close>







fun np_sum :: "npfloat list \<Rightarrow> npfloat" where
  "np_sum [] = Finite 0"
| "np_sum (NaN # xs) = NaN"
| "np_sum (Finite v # xs) = (case np_sum xs of NaN \<Rightarrow> NaN | Finite s \<Rightarrow> Finite (v + s))"




subsection \<open>The MAP by scalar minimisation\<close>


subsection \<open>A call seen from the script\<close>

text \<open>
  The body of \<open>log_posterior\<close> once more, now as the interpreter runs it: statement
  by statement over the two namespaces of a running call, the frame of the call (its
  parameters and the names the body assigns) and the globals of the module, in which
  the script keeps \<open>logp\<close>, \<open>cov\<close>, \<open>alpha_range\<close> and the imported modules. A
  name that the body assigns is local to the frame, since the body has no \<open>global\<close>
  statement; every other name (\<open>scipy\<close>, \<open>np\<close>, \<open>len\<close>, \<open>ValueError\<close>) is
  looked up in the globals and, when the script binds no such name, in the builtins.
  The body stores into no object and calls library functions only.

  Values here are numpy's, so a value that is not finite is carried along: \<open>NaN\<close>
  stands for every float that is not finite (\<open>inf\<close> from a division by zero,
  \<open>-inf\<close> from \<open>np.log(0)\<close> or from the log density outside the support,
  \<open>nan\<close>); sums and products with such a value are not finite either.
\<close>

datatype pyval
  = Number npfloat
  | Array "npfloat list"
  | Boolean bool
  | Module string
  | Builtin string

type_synonym namespace = "string \<rightharpoonup> pyval"

record frame =
  f_locals :: namespace
  f_globals :: namespace

type_synonym 'a run = "frame \<Rightarrow> (error + 'a) \<times> frame"

definition returns :: "'a \<Rightarrow> 'a run" where
  "returns v = (\<lambda>s. (Inr v, s))"

definition raises :: "error \<Rightarrow> 'a run" where
  "raises e = (\<lambda>s. (Inl e, s))"

definition and_then :: "'a run \<Rightarrow> ('a \<Rightarrow> 'b run) \<Rightarrow> 'b run" where
  "and_then m f = (\<lambda>s. case m s of (Inl e, s') \<Rightarrow> (Inl e, s') | (Inr v, s') \<Rightarrow> f v s')"

fun block :: "unit run list \<Rightarrow> unit run" where
  "block [] = returns ()"
| "block (stmt # stmts) = and_then stmt (\<lambda>_. block stmts)"

definition builtin_names :: "string list" where
  "builtin_names = [''len'', ''ValueError'']"

definition load_fast :: "string \<Rightarrow> pyval run" where
  "load_fast name =
     (\<lambda>s. case f_locals s name of
            None \<Rightarrow> (Inl (NameError name), s)
          | Some v \<Rightarrow> (Inr v, s))"

definition load_global :: "string \<Rightarrow> pyval run" where
  "load_global name =
     (\<lambda>s. case f_globals s name of
            Some v \<Rightarrow> (Inr v, s)
          | None \<Rightarrow> if name \<in> set builtin_names then (Inr (Builtin name), s)
                    else (Inl (NameError name), s))"

definition store_fast :: "string \<Rightarrow> pyval \<Rightarrow> unit run" where
  "store_fast name v = (\<lambda>s. (Inr (), s\<lparr>f_locals := (f_locals s)(name \<mapsto> v)\<rparr>))"

text \<open>
  Reading a value as an array or as a number, and reaching a library function through
  the name of its module: an attribute of anything else raises AttributeError, a call
  of anything but the builtin raises TypeError.
\<close>

fun array_of :: "pyval \<Rightarrow> npfloat list run" where
  "array_of (Array xs) = returns xs"
| "array_of _ = raises TypeError"

fun number_of :: "pyval \<Rightarrow> npfloat run" where
  "number_of (Number x) = returns x"
| "number_of _ = raises TypeError"

definition load_array :: "string \<Rightarrow> npfloat list run" where
  "load_array name = and_then (load_fast name) array_of"

definition load_number :: "string \<Rightarrow> npfloat run" where
  "load_number name = and_then (load_fast name) number_of"

definition load_module :: "string \<Rightarrow> string \<Rightarrow> unit run" where
  "load_module name library =
     and_then (load_global name)
       (\<lambda>v. if v = Module library then returns () else raises AttributeError)"

definition load_builtin :: "string \<Rightarrow> unit run" where
  "load_builtin name =
     and_then (load_global name)
       (\<lambda>v. if v = Builtin name then returns () else raises TypeError)"

text \<open>numpy's arithmetic on floats that may be non-finite.\<close>

fun np_plus :: "npfloat \<Rightarrow> npfloat \<Rightarrow> npfloat" where
  "np_plus (Finite a) (Finite b) = Finite (a + b)"
| "np_plus _ _ = NaN"

fun np_minus :: "npfloat \<Rightarrow> npfloat \<Rightarrow> npfloat" where
  "np_minus (Finite a) (Finite b) = Finite (a - b)"
| "np_minus _ _ = NaN"

fun np_times :: "npfloat \<Rightarrow> npfloat \<Rightarrow> npfloat" where
  "np_times (Finite a) (Finite b) = Finite (a * b)"
| "np_times _ _ = NaN"

fun np_true_divide :: "npfloat \<Rightarrow> npfloat \<Rightarrow> npfloat" where
  "np_true_divide (Finite a) (Finite b) = (if b = 0 then NaN else Finite (a / b))"
| "np_true_divide _ _ = NaN"

fun np_negative :: "npfloat \<Rightarrow> npfloat" where
  "np_negative (Finite a) = Finite (- a)"
| "np_negative NaN = NaN"

fun np_log :: "npfloat \<Rightarrow> npfloat" where
  "np_log (Finite a) = (if 0 < a then Finite (ln a) else NaN)"
| "np_log NaN = NaN"

fun np_less_zero :: "npfloat \<Rightarrow> bool" where
  "np_less_zero (Finite a) = (a < 0)"
| "np_less_zero NaN = False"

fun np_apply :: "(real \<Rightarrow> real) \<Rightarrow> npfloat \<Rightarrow> npfloat" where
  "np_apply f (Finite a) = Finite (f a)"
| "np_apply f NaN = NaN"

fun halfnorm_logpdf_np :: "real \<Rightarrow> real \<Rightarrow> npfloat \<Rightarrow> npfloat" where
  "halfnorm_logpdf_np loc scale (Finite x) =
     (if x < loc then NaN else Finite (halfnorm_logpdf loc scale x))"
| "halfnorm_logpdf_np loc scale NaN = NaN"

definition np_add_arrays :: "npfloat list \<Rightarrow> npfloat list \<Rightarrow> npfloat list option" where
  "np_add_arrays xs ys =
     (if length xs = length ys then Some (map2 np_plus xs ys)
      else if length xs = 1 then Some (map (\<lambda>y. np_plus (hd xs) y) ys)
      else if length ys = 1 then Some (map (\<lambda>x. np_plus x (hd ys)) xs)
      else None)"

text \<open>\<open>negative==True\<close>: true of \<open>True\<close> and of the number 1.\<close>

fun equals_True :: "pyval \<Rightarrow> bool" where
  "equals_True (Boolean b) = b"
| "equals_True (Number x) = (x = Finite 1)"
| "equals_True _ = False"

text \<open>The statements of the body, in the order of the source.\<close>

definition stmt_prefactor :: "unit run" where
  "stmt_prefactor =
     and_then (load_fast ''negative'')
       (\<lambda>negative. if equals_True negative
          then store_fast ''prefactor'' (Number (Finite (- 1)))
          else store_fast ''prefactor'' (Number (Finite 1)))"

definition stmt_guard :: "unit run" where
  "stmt_guard =
     and_then (load_array ''I1'') (\<lambda>I1.
       if \<exists>x \<in> set I1. np_less_zero x
       then and_then (load_builtin ''ValueError'')
              (\<lambda>_. raises (ValueError ''Negative values in I1 or I2''))
       else
         and_then (load_array ''I2'') (\<lambda>I2.
           if \<exists>x \<in> set I2. np_less_zero x
           then and_then (load_builtin ''ValueError'')
                  (\<lambda>_. raises (ValueError ''Negative values in I1 or I2''))
           else returns ()))"

definition stmt_n1 :: "unit run" where
  "stmt_n1 =
     and_then (load_array ''I1'') (\<lambda>I1.
     and_then (load_number ''alpha'') (\<lambda>alpha.
       store_fast ''n1'' (Array (map (\<lambda>x. np_true_divide x alpha) I1))))"

definition stmt_n2 :: "unit run" where
  "stmt_n2 =
     and_then (load_array ''I2'') (\<lambda>I2.
     and_then (load_number ''alpha'') (\<lambda>alpha.
       store_fast ''n2'' (Array (map (\<lambda>x. np_true_divide x alpha) I2))))"

definition stmt_ntot :: "unit run" where
  "stmt_ntot =
     and_then (load_array ''I1'') (\<lambda>I1.
     and_then (load_array ''I2'') (\<lambda>I2.
       case np_add_arrays I1 I2 of
         None \<Rightarrow> raises (ValueError ''operands could not be broadcast together'')
       | Some I12 \<Rightarrow>
           and_then (load_number ''alpha'') (\<lambda>alpha.
             store_fast ''ntot'' (Array (map (\<lambda>x. np_true_divide x alpha) I12)))))"

definition gammaln_sum :: "(real \<Rightarrow> real) \<Rightarrow> string \<Rightarrow> npfloat run" where
  "gammaln_sum gammaln name =
     and_then (load_module ''scipy'' ''scipy'') (\<lambda>_.
     and_then (load_array name) (\<lambda>n.
       returns (np_sum (map (\<lambda>x. np_apply gammaln (np_plus x (Finite 1))) n))))"

definition stmt_binom :: "(real \<Rightarrow> real) \<Rightarrow> unit run" where
  "stmt_binom gammaln =
     and_then (gammaln_sum gammaln ''ntot'') (\<lambda>a.
     and_then (gammaln_sum gammaln ''n1'') (\<lambda>b.
     and_then (gammaln_sum gammaln ''n2'') (\<lambda>c.
       store_fast ''binom'' (Number (np_minus (np_minus a b) c)))))"

definition stmt_log_prior :: "unit run" where
  "stmt_log_prior =
     and_then (load_module ''scipy'' ''scipy'') (\<lambda>_.
     and_then (load_number ''alpha'') (\<lambda>alpha.
       store_fast ''log_prior'' (Number (halfnorm_logpdf_np 0 500 alpha))))"

definition stmt_prob :: "unit run" where
  "stmt_prob =
     and_then (load_array ''ntot'') (\<lambda>ntot.
     and_then (load_module ''np'' ''numpy'') (\<lambda>_.
       store_fast ''prob'' (Number (np_times (np_negative (np_sum ntot)) (np_log (Finite 2))))))"

definition stmt_cov :: "unit run" where
  "stmt_cov =
     and_then (load_builtin ''len'') (\<lambda>_.
     and_then (load_array ''I1'') (\<lambda>I1.
     and_then (load_module ''np'' ''numpy'') (\<lambda>_.
     and_then (load_number ''alpha'') (\<lambda>alpha.
       store_fast ''cov'' (Number (np_times (Finite (- real (length I1))) (np_log alpha)))))))"

definition stmt_logp :: "unit run" where
  "stmt_logp =
     and_then (load_number ''prefactor'') (\<lambda>prefactor.
     and_then (load_number ''prob'') (\<lambda>prob.
     and_then (load_number ''cov'') (\<lambda>cov.
     and_then (load_number ''binom'') (\<lambda>binom.
     and_then (load_number ''log_prior'') (\<lambda>log_prior.
       store_fast ''logp''
         (Number (np_times prefactor
                    (np_plus (np_plus (np_plus prob cov) binom) log_prior))))))))"

definition log_posterior_body :: "(real \<Rightarrow> real) \<Rightarrow> npfloat run" where
  "log_posterior_body gammaln =
     and_then
       (block [stmt_prefactor, stmt_guard, stmt_n1, stmt_n2, stmt_ntot, stmt_binom gammaln,
               stmt_log_prior, stmt_prob, stmt_cov, stmt_logp])
       (\<lambda>_. load_number ''logp'')"

text \<open>
  A call made while the globals of the script are \<open>globals\<close>: the frame starts with
  the four parameters, the body runs, and the caller has the outcome and the globals
  as the body left them; the frame is dropped.
\<close>

definition log_posterior_call ::
  "(real \<Rightarrow> real) \<Rightarrow> namespace \<Rightarrow> real \<Rightarrow> real list \<Rightarrow> real list \<Rightarrow> bool
     \<Rightarrow> (error + npfloat) \<times> namespace" where
  "log_posterior_call gammaln globals alpha I1 I2 negative =
     (case log_posterior_body gammaln
             \<lparr>f_locals = [''alpha'' \<mapsto> Number (Finite alpha), ''I1'' \<mapsto> Array (map Finite I1),
                          ''I2'' \<mapsto> Array (map Finite I2), ''negative'' \<mapsto> Boolean negative],
              f_globals = globals\<rparr> of
        (outcome, s) \<Rightarrow> (outcome, f_globals s))"

text \<open>
  The script imports \<open>numpy\<close> as \<open>np\<close> and \<open>scipy\<close> with its submodules, and binds
  neither \<open>len\<close> nor \<open>ValueError\<close>.
\<close>

definition libraries_bound :: "namespace \<Rightarrow> bool" where
  "libraries_bound globals =
     (globals ''scipy'' = Some (Module ''scipy'') \<and> globals ''np'' = Some (Module ''numpy'')
      \<and> globals ''len'' = None \<and> globals ''ValueError'' = None)"

section \<open>mwc/model.py\<close>

subsection \<open>The class MWC\<close>

text \<open>
  A constructor argument is a number or \<open>None\<close> (the default of \<open>effector_conc\<close>,
  \<open>ka\<close>, \<open>ki\<close> and \<open>ep_ai\<close>). An instance that \<open>__init__\<close> returned holds numbers
  in \<open>c\<close>, \<open>ka\<close>, \<open>ki\<close> and \<open>n\<close>, since the positivity loop compares each of them
  with 0; \<open>ep_ai\<close> is stored unchecked and may still be \<open>None\<close>. The numbers
  passed are Python floats. With \<open>log_transform\<close> the instance stores
  \<open>np.exp(ka)\<close> and \<open>np.exp(ki)\<close>, which are numpy floats; \<open>mwc_numpy\<close> records
  whether \<open>ka\<close> and \<open>ki\<close> of the instance are numpy floats.
\<close>

record MWC =
  mwc_c :: real
  mwc_ep_ai :: "real option"
  mwc_n :: real
  mwc_ka :: real
  mwc_ki :: real
  mwc_numpy :: bool

text \<open>
  The loop under the comment \<open>Ensure values are provided\<close> tests
  \<open>type(kwargs[k]) is None\<close>. The type of a value is never \<open>None\<close> (the type of
  \<open>None\<close> is \<open>NoneType\<close>), so the test is false for every value and the
  RuntimeError \<open>'{0} is NoneType and must be defined.'\<close> below it is never raised.
\<close>

definition type_is_None :: "real option \<Rightarrow> bool" where
  "type_is_None val = False"

fun check_provided :: "(string \<times> real option) list \<Rightarrow> error option" where
  "check_provided [] = None"
| "check_provided ((k, val) # rest) =
     (if type_is_None val then Some (RuntimeError (k @ '' is NoneType and must be defined.''))
      else check_provided rest)"

text \<open>
  The loop over \<open>positive_kwargs\<close>: \<open>val = np.array([val])\<close> is always taken
  (\<open>type(val) is float or int\<close> is truthy), and \<open>(val < 0).any()\<close> raises TypeError
  on \<open>None\<close>.
\<close>

fun check_positive :: "(string \<times> real option) list \<Rightarrow> error option" where
  "check_positive [] = None"
| "check_positive ((k, None) # rest) = Some TypeError"
| "check_positive ((k, Some val) # rest) =
     (if val < 0 then Some (RuntimeError (k @ '' must be positive.''))
      else check_positive rest)"

text \<open>
  \<open>MWC.__init__\<close>. With \<open>log_transform\<close>, \<open>np.exp(None)\<close> raises TypeError. The
  zero test reads the arguments \<open>ka\<close>, \<open>ki\<close> as passed, where \<open>None == 0\<close> is
  false.
\<close>

definition MWC_init ::
  "real option \<Rightarrow> real option \<Rightarrow> real option \<Rightarrow> real option \<Rightarrow> real option \<Rightarrow> bool
     \<Rightarrow> error + MWC" where
  "MWC_init effector_conc ka ki ep_ai n_sites log_transform =
     (case check_provided [(''effector_conc'', effector_conc), (''ka'', ka), (''ki'', ki),
                           (''ep_ai'', ep_ai), (''n_sites'', n_sites)] of
        Some e \<Rightarrow> Inl e
      | None \<Rightarrow>
          if log_transform = True \<and> (ka = None \<or> ki = None) then Inl TypeError
          else
            (let self_ka = (if log_transform = True then map_option exp ka else ka);
                 self_ki = (if log_transform = True then map_option exp ki else ki)
             in if ka = Some 0 \<or> ki = Some 0
                then Inl (ValueError ''ka and/or ki cannot be zero.'')
                else
                  (case check_positive [(''effector_conc'', effector_conc), (''ka'', self_ka),
                                        (''ki'', self_ki), (''n_sites'', n_sites)] of
                     Some e \<Rightarrow> Inl e
                   | None \<Rightarrow>
                       (case (effector_conc, self_ka, self_ki, n_sites) of
                          (Some c, Some a, Some i, Some n) \<Rightarrow>
                            Inr \<lparr>mwc_c = c, mwc_ep_ai = ep_ai, mwc_n = n, mwc_ka = a,
                                 mwc_ki = i, mwc_numpy = (log_transform = True)\<rparr>
                        | _ \<Rightarrow> Inl TypeError))))"

text \<open>
  The methods, as formulas over the reals. \<open>x ** y\<close> on a positive base is
  \<open>x powr y\<close>; the bases here are \<open>1 + c / ka\<close>, \<open>1 + c / ki\<close>, \<open>ka / ki\<close> and
  one plus a positive number, all positive on an instance that \<open>__init__\<close> returned.
  \<open>-self.ep_ai\<close> raises TypeError when \<open>ep_ai\<close> is \<open>None\<close>.
\<close>

definition MWC_pact :: "MWC \<Rightarrow> error + real" where
  "MWC_pact self =
     (let c = mwc_c self; n = mwc_n self; ka = mwc_ka self; ki = mwc_ki self;
          numer = (1 + c / ka) powr n
      in case mwc_ep_ai self of
           None \<Rightarrow> Inl TypeError
         | Some ep_ai \<Rightarrow>
             (let denom = numer + exp (- ep_ai) * (1 + c / ki) powr n
              in Inr (numer / denom)))"

definition MWC_saturation :: "MWC \<Rightarrow> error + real" where
  "MWC_saturation self =
     (let ka = mwc_ka self; ki = mwc_ki self; n = mwc_n self
      in case mwc_ep_ai self of
           None \<Rightarrow> Inl TypeError
         | Some ep_ai \<Rightarrow> Inr ((1 + exp (- ep_ai) * (ka / ki) powr n) powr (- 1)))"

definition MWC_leakiness :: "MWC \<Rightarrow> error + real" where
  "MWC_leakiness self =
     (case mwc_ep_ai self of
        None \<Rightarrow> Inl TypeError
      | Some ep_ai \<Rightarrow> Inr ((1 + exp (- ep_ai)) powr (- 1)))"

text \<open>
  Whether a call of \<open>saturation\<close> returns or raises also depends on the floats. The
  largest float is \<open>2^1024 - 2^971\<close>. numpy's operations give \<open>inf\<close> with a
  warning where the result is beyond it, and so does the division of Python floats, but
  \<open>x ** y\<close> on Python floats raises OverflowError when \<open>x\<close> is finite and the
  result is beyond the largest float. In \<open>(1 + np.exp(-ep_ai) * (ka / ki)**n)**-1\<close>
  the operands are evaluated from the left: \<open>np.exp(-ep_ai)\<close> first, then
  \<open>(ka / ki)**n\<close>, which is a power of Python floats unless \<open>ka\<close> and \<open>ki\<close>
  are numpy floats; the product, the sum and the outer power are numpy's.
\<close>

definition float_max :: real where
  "float_max = 2 ^ 1024 - 2 ^ 971"

definition float_pow_overflows :: "real \<Rightarrow> real \<Rightarrow> bool" where
  "float_pow_overflows x y = (x \<le> float_max \<and> float_max < x powr y)"

definition MWC_saturation_run :: "MWC \<Rightarrow> error + real" where
  "MWC_saturation_run self =
     (case mwc_ep_ai self of
        None \<Rightarrow> Inl TypeError
      | Some ep_ai \<Rightarrow>
          if \<not> mwc_numpy self \<and> float_pow_overflows (mwc_ka self / mwc_ki self) (mwc_n self)
          then Inl OverflowError
          else MWC_saturation self)"

subsection \<open>The class SimpleRepression\<close>

text \<open>
  \<open>**kwargs\<close> is the dict of the keyword arguments that the caller wrote, each with
  its value: a number, \<open>None\<close> or a bool (a bool counts as the number 1 or 0
  wherever a number is used). The call of \<open>MWC\<close> with this dict raises TypeError
  on a keyword that is not a parameter of \<open>MWC.__init__\<close> and takes the default of
  every parameter that is not in the dict. The keys of a dict are distinct.
\<close>

datatype pyarg = PyNone | PyNumber real | PyBool bool

fun number_arg :: "pyarg \<Rightarrow> real option" where
  "number_arg PyNone = None"
| "number_arg (PyNumber x) = Some x"
| "number_arg (PyBool b) = Some (if b then 1 else 0)"

definition MWC_parameters :: "string list" where
  "MWC_parameters = [''effector_conc'', ''ka'', ''ki'', ''ep_ai'', ''n_sites'', ''log_transform'']"

definition keyword :: "(string \<times> pyarg) list \<Rightarrow> string \<Rightarrow> pyarg \<Rightarrow> pyarg" where
  "keyword kwargs name dflt = (case map_of kwargs name of None \<Rightarrow> dflt | Some v \<Rightarrow> v)"

definition MWC_new :: "(string \<times> pyarg) list \<Rightarrow> error + MWC" where
  "MWC_new kwargs =
     (if \<exists>k \<in> set (map fst kwargs). k \<notin> set MWC_parameters then Inl TypeError
      else MWC_init (number_arg (keyword kwargs ''effector_conc'' PyNone))
             (number_arg (keyword kwargs ''ka'' PyNone))
             (number_arg (keyword kwargs ''ki'' PyNone))
             (number_arg (keyword kwargs ''ep_ai'' PyNone))
             (number_arg (keyword kwargs ''n_sites'' (PyNumber 2)))
             (keyword kwargs ''log_transform'' (PyBool False) = PyBool True))"

text \<open>
  \<open>SimpleRepression.__init__\<close>: the positivity loop over \<open>R\<close> and \<open>n_ns\<close>, then
  \<open>if kwargs:\<close>, which is true of every non-empty dict. \<open>self.mwc\<close> exists exactly
  when \<open>self.allo\<close> is true, so the instance stores the optional \<open>MWC\<close> and
  \<open>allo\<close> reads it.
\<close>

record SimpleRepression =
  sr_R :: real
  sr_ep_r :: real
  sr_n_ns :: real
  sr_mwc :: "MWC option"

definition allo :: "SimpleRepression \<Rightarrow> bool" where
  "allo self = (sr_mwc self \<noteq> None)"

definition SimpleRepression_init ::
  "real \<Rightarrow> real \<Rightarrow> real \<Rightarrow> (string \<times> pyarg) list \<Rightarrow> error + SimpleRepression" where
  "SimpleRepression_init R ep_r n_ns kwargs =
     (case check_positive [(''R'', Some R), (''n_ns'', Some n_ns)] of
        Some e \<Rightarrow> Inl e
      | None \<Rightarrow>
          if kwargs \<noteq> [] then
            (case MWC_new kwargs of
               Inl e \<Rightarrow> Inl e
             | Inr m \<Rightarrow> Inr \<lparr>sr_R = R, sr_ep_r = ep_r, sr_n_ns = n_ns, sr_mwc = Some m\<rparr>)
          else Inr \<lparr>sr_R = R, sr_ep_r = ep_r, sr_n_ns = n_ns, sr_mwc = None\<rparr>)"

text \<open>
  \<open>saturation\<close>: the guard, then \<open>pact = self.mwc.saturation()\<close>, then a bare
  \<open>return\<close>; the statements after it never run. The result \<open>None\<close> is Python's.
\<close>

definition SimpleRepression_saturation ::
  "SimpleRepression \<Rightarrow> bool \<Rightarrow> real option \<Rightarrow> real \<Rightarrow> error + real option" where
  "SimpleRepression_saturation self wpa num_pol ep_pol =
     (case sr_mwc self of
        None \<Rightarrow> Inl (RuntimeError
          ''Saturation is only defined for allosteric molecules. (`allosteric = True`)'')
      | Some m \<Rightarrow>
          (case MWC_saturation_run m of
             Inl e \<Rightarrow> Inl e
           | Inr pact \<Rightarrow> Inr None))"

text \<open>
  \<open>leakiness\<close> computes \<open>pact\<close> and then loads the name \<open>fold_change\<close>;
  \<open>dynamic_range\<close> starts by loading the name \<open>saturation\<close>. The module binds
  \<open>np\<close>, \<open>scipy\<close>, \<open>load_constants\<close>, \<open>MWC\<close> and \<open>SimpleRepression\<close> only, and
  none of the three names is a builtin, so loading them raises NameError. The branch
  of the model for a name that is bound is never taken.
\<close>

definition module_names :: "string list" where
  "module_names = [''np'', ''scipy'', ''load_constants'', ''MWC'', ''SimpleRepression'']"

definition load_name :: "string \<Rightarrow> error option" where
  "load_name name = (if name \<in> set module_names then None else Some (NameError name))"

definition SimpleRepression_leakiness ::
  "SimpleRepression \<Rightarrow> bool \<Rightarrow> real option \<Rightarrow> real \<Rightarrow> error + real" where
  "SimpleRepression_leakiness self wpa num_pol ep_pol =
     (case (if allo self = True then MWC_leakiness (the (sr_mwc self)) else Inr 1) of
        Inl e \<Rightarrow> Inl e
      | Inr pact \<Rightarrow>
          (case load_name ''fold_change'' of
             Some e \<Rightarrow> Inl e
           | None \<Rightarrow> Inl TypeError))"

definition SimpleRepression_dynamic_range ::
  "SimpleRepression \<Rightarrow> bool \<Rightarrow> real option \<Rightarrow> real \<Rightarrow> error + real" where
  "SimpleRepression_dynamic_range self wpa num_pol ep_pol =
     (case load_name ''saturation'' of
        Some e \<Rightarrow> Inl e
      | None \<Rightarrow> Inl TypeError)"

section \<open>mwc/stats.py\<close>

subsection \<open>ecdf\<close>

text \<open>
  \<open>np.sort(data), np.arange(0, len(data)) / len(data)\<close>. The division is numpy's
  elementwise division of an array by a number: it is applied to each element of
  \<open>np.arange(0, len(data))\<close> and raises nothing, also when that array is empty.
\<close>

definition ecdf :: "real list \<Rightarrow> real list \<times> real list" where
  "ecdf data =
     (sort data, map (\<lambda>i. real i / real (length data)) [0..<length data])"

subsection \<open>bin\_by\_events\<close>

text \<open>
  A dataframe is its column names and its rows; a row gives the value of each column.
  \<open>np.mean\<close> and \<open>np.std\<close> of an empty array are \<open>nan\<close>.
\<close>

type_synonym row = "string \<Rightarrow> real"

record dataframe =
  df_columns :: "string list"
  df_rows :: "row list"

definition np_mean :: "real list \<Rightarrow> npfloat" where
  "np_mean xs = (if xs = [] then NaN else Finite (sum_list xs / real (length xs)))"

definition np_std :: "real list \<Rightarrow> npfloat" where
  "np_std xs =
     (if xs = [] then NaN
      else (let m = sum_list xs / real (length xs)
            in Finite (sqrt (sum_list (map (\<lambda>x. (x - m) ^ 2) xs) / real (length xs)))))"

fun np_div :: "npfloat \<Rightarrow> real \<Rightarrow> npfloat" where
  "np_div NaN d = NaN"
| "np_div (Finite x) d = (if d = 0 then NaN else Finite (x / d))"

text \<open>
  \<open>np.arange(start, stop, step)\<close> on integers has \<open>ceil((stop - start) / step)\<close>
  entries; a zero step raises.
\<close>

definition np_arange :: "nat \<Rightarrow> nat \<Rightarrow> nat \<Rightarrow> nat list" where
  "np_arange start stop step =
     map (\<lambda>i. start + i * step) [0..<(stop - start + step - 1) div step]"

text \<open>The slice \<open>rows[lo:hi]\<close>.\<close>

definition iloc :: "'a list \<Rightarrow> nat \<Rightarrow> nat \<Rightarrow> 'a list" where
  "iloc rows lo hi = drop lo (take hi rows)"

text \<open>
  The body of the inner loop \<open>for k in d.keys()\<close>, on the dict \<open>averages\<close>:
  \<open>averages[f'{k}_sem'][i-1] = np.std(d[k].values) / np.sqrt(len(d))\<close> and then
  \<open>averages[k][i-1] = val\<close>. Both keys were put into the dict before the loop.
\<close>

definition store_bin ::
  "row list \<Rightarrow> nat \<Rightarrow> string \<Rightarrow> (string \<rightharpoonup> npfloat list) \<Rightarrow> (string \<rightharpoonup> npfloat list)" where
  "store_bin d i k averages =
     (let val = np_mean (map (\<lambda>r. r k) d);
          sem = np_div (np_std (map (\<lambda>r. r k) d)) (sqrt (real (length d)));
          averages1 = averages(k @ ''_sem'' \<mapsto> (the (averages (k @ ''_sem'')))[i - 1 := sem])
      in averages1(k \<mapsto> (the (averages1 k))[i - 1 := val]))"

text \<open>
  \<open>bin_by_events\<close>. \<open>df.sort_values(sortby)\<close> uses numpy's quicksort, which orders
  rows of equal key in no specified way, so the sort is the parameter
  \<open>sort_values\<close>. A missing \<open>sortby\<close> column raises KeyError in the sort, a zero
  \<open>bin_size\<close> raises in \<open>np.arange\<close>, and selecting the \<open>average\<close> columns in the
  first pass of the loop raises KeyError when one of them is missing.
\<close>

definition bin_by_events ::
  "(string \<Rightarrow> row list \<Rightarrow> row list) \<Rightarrow> dataframe \<Rightarrow> nat \<Rightarrow> string \<Rightarrow> string list
     \<Rightarrow> error + (string \<rightharpoonup> npfloat list)" where
  "bin_by_events sort_values df bin_size sortby average =
     (if sortby \<notin> set (df_columns df) then Inl (KeyError sortby)
      else if bin_size = 0 then Inl ZeroDivisionError
      else
        (let sorted_df = sort_values sortby (df_rows df);
             bins = np_arange 0 (length sorted_df + bin_size) bin_size;
             zeros = replicate (length bins) (Finite 0);
             averages0 = fold (\<lambda>k m. m(k \<mapsto> zeros)) average Map.empty;
             averages1 = fold (\<lambda>k m. m(k @ ''_sem'' \<mapsto> zeros)) average averages0
         in if 1 < length bins \<and> (\<exists>k \<in> set average. k \<notin> set (df_columns df))
            then Inl (KeyError (hd (filter (\<lambda>k. k \<notin> set (df_columns df)) average)))
            else Inr (fold (\<lambda>i averages.
                        fold (store_bin (iloc sorted_df (bins ! (i - 1)) (bins ! i)) i)
                          average averages)
                      [1..<length bins] averages1)))"

text \<open>
  What the function is meant to compute: the rows in consecutive groups of
  \<open>bin_size\<close>, the last one holding what remains, and per group the mean and the
  standard error of a column.
\<close>

definition event_groups :: "nat \<Rightarrow> 'a list \<Rightarrow> 'a list list" where
  "event_groups bin_size rows =
     map (\<lambda>j. take bin_size (drop (j * bin_size) rows))
       [0..<(length rows + bin_size - 1) div bin_size]"

definition group_mean :: "string \<Rightarrow> row list \<Rightarrow> npfloat" where
  "group_mean k d = np_mean (map (\<lambda>r. r k) d)"

definition group_sem :: "string \<Rightarrow> row list \<Rightarrow> npfloat" where
  "group_sem k d = np_div (np_std (map (\<lambda>r. r k) d)) (sqrt (real (length d)))"

definition sorts_by :: "(string \<Rightarrow> row list \<Rightarrow> row list) \<Rightarrow> string \<Rightarrow> row list \<Rightarrow> bool" where
  "sorts_by sort_values key rows =
     (sorted (map (\<lambda>r. r key) (sort_values key rows))
      \<and> mset (sort_values key rows) = mset rows)"

section \<open>code/compile\_data.py\<close>

text \<open>
  \<open>str.lower\<close> on ASCII text.
\<close>

definition lower_char :: "char \<Rightarrow> char" where
  "lower_char ch =
     (if 65 \<le> (of_char ch :: nat) \<and> (of_char ch :: nat) \<le> 90
      then char_of (of_char ch + 32 :: nat) else ch)"

definition str_lower :: "string \<Rightarrow> string" where
  "str_lower s = map lower_char s"

text \<open>
  The first loop of the script over the experiment directories. \<open>mwc.io\<close> is not part
  of the sources at hand, so \<open>scrape_frontmatter\<close> is a parameter that gives the dict
  of a directory's readme; \<open>glob\<close> and \<open>read_csv\<close> are the library's. Nothing in the
  loop catches an exception: a missing \<open>status\<close> key, an empty glob result and a
  failure of \<open>read_csv\<close> each end the script.
\<close>

fun compile_loop ::
  "(string \<Rightarrow> (string \<rightharpoonup> string)) \<Rightarrow> (string \<Rightarrow> string list) \<Rightarrow> (string \<Rightarrow> error + 'df)
     \<Rightarrow> string list \<Rightarrow> 'df list \<times> 'df list \<Rightarrow> error + 'df list \<times> 'df list" where
  "compile_loop scrape_frontmatter glob read_csv [] (fluct_dfs, fc_dfs) =
     Inr (fluct_dfs, fc_dfs)"
| "compile_loop scrape_frontmatter glob read_csv (d # rest) (fluct_dfs, fc_dfs) =
     (let info = scrape_frontmatter d in
      case info ''status'' of
        None \<Rightarrow> Inl (KeyError ''status'')
      | Some status \<Rightarrow>
          if str_lower status = ''accepted'' then
            (case glob (d @ ''/output/*fluctuations.csv'') of
               [] \<Rightarrow> Inl IndexError
             | p # _ \<Rightarrow>
                 (case read_csv p of
                    Inl e \<Rightarrow> Inl e
                  | Inr fluct_df \<Rightarrow>
                      (case glob (d @ ''/output/*foldchange.csv'') of
                         [] \<Rightarrow> Inl IndexError
                       | q # _ \<Rightarrow>
                           (case read_csv q of
                              Inl e \<Rightarrow> Inl e
                            | Inr fc_df \<Rightarrow>
                                compile_loop scrape_frontmatter glob read_csv rest
                                  (fluct_dfs @ [fluct_df], fc_dfs @ [fc_df])))))
          else compile_loop scrape_frontmatter glob read_csv rest (fluct_dfs, fc_dfs))"

section \<open>Properties of the log posterior\<close>

lemma log_posterior_finite:
  assumes "0 < alpha" "\<forall>x \<in> set I1. 0 \<le> x" "\<forall>x \<in> set I2. 0 \<le> x" "length I1 = length I2"
  shows "\<exists>v. log_posterior gammaln alpha I1 I2 negative = Inr (Finite v)"
proof -
  have "\<not> ((\<exists>x \<in> set I1. x < 0) \<or> (\<exists>x \<in> set I2. x < 0))"
    using assms(2,3) by (auto simp: not_less)
  then show ?thesis
    using assms(1,4) by (simp add: log_posterior_def np_add_def Let_def)
qed

lemma log_posterior_negated:
  "log_posterior gammaln alpha I1 I2 True = negated (log_posterior gammaln alpha I1 I2 False)"
  by (simp add: log_posterior_def Let_def split: option.splits)

text \<open>
  C5. For \<open>alpha > 0\<close> and nonnegative intensity arrays, the call with
  \<open>negative=True\<close> is \<open>-1\<close> times the call with \<open>negative=False\<close> (an
  exception is the same in both); on arrays of equal length both calls return a finite
  number, and the negative log posterior at \<open>alpha\<close> is below the one at \<open>beta\<close>
  exactly when the log posterior at \<open>alpha\<close> is above the one at \<open>beta\<close>, so
  minimising the former maximises the latter.
\<close>

theorem log_posterior_negative_is_minus:
  assumes "0 < alpha" "\<forall>x \<in> set I1. 0 \<le> x" "\<forall>x \<in> set I2. 0 \<le> x"
  shows "log_posterior gammaln alpha I1 I2 True
           = negated (log_posterior gammaln alpha I1 I2 False)
       \<and> (length I1 = length I2 \<longrightarrow>
           (\<exists>v. log_posterior gammaln alpha I1 I2 False = Inr (Finite v)
              \<and> log_posterior gammaln alpha I1 I2 True = Inr (Finite (- 1 * v))))
       \<and> (length I1 = length I2 \<and> 0 < beta \<longrightarrow>
           (the (returned (log_posterior gammaln alpha I1 I2 True))
              \<le> the (returned (log_posterior gammaln beta I1 I2 True)))
           = (the (returned (log_posterior gammaln beta I1 I2 False))
              \<le> the (returned (log_posterior gammaln alpha I1 I2 False))))"
proof (intro conjI impI)
  show neg: "log_posterior gammaln alpha I1 I2 True
               = negated (log_posterior gammaln alpha I1 I2 False)"
    by (rule log_posterior_negated)
next
  assume len: "length I1 = length I2"
  obtain v where v: "log_posterior gammaln alpha I1 I2 False = Inr (Finite v)"
    using log_posterior_finite [OF assms len] by blast
  then show "\<exists>v. log_posterior gammaln alpha I1 I2 False = Inr (Finite v)
               \<and> log_posterior gammaln alpha I1 I2 True = Inr (Finite (- 1 * v))"
    by (simp add: log_posterior_negated)
next
  assume "length I1 = length I2 \<and> 0 < beta"
  then have len: "length I1 = length I2" and beta: "0 < beta" by simp_all
  obtain v where v: "log_posterior gammaln alpha I1 I2 False = Inr (Finite v)"
    using log_posterior_finite [OF assms len] by blast
  obtain w where w: "log_posterior gammaln beta I1 I2 False = Inr (Finite w)"
    using log_posterior_finite [OF beta assms(2,3) len] by blast
  show "(the (returned (log_posterior gammaln alpha I1 I2 True))
            \<le> the (returned (log_posterior gammaln beta I1 I2 True)))
         = (the (returned (log_posterior gammaln beta I1 I2 False))
            \<le> the (returned (log_posterior gammaln alpha I1 I2 False)))"
    using v w by (simp add: log_posterior_negated)
qed

theorem log_posterior_negative_is_minus_witness:
  "\<exists>v. log_posterior gammaln_floor 2 [1, 3] [2, 0] False = Inr (Finite v)
      \<and> log_posterior gammaln_floor 2 [1, 3] [2, 0] True = Inr (Finite (- 1 * v))"
proof -
  have "(0::real) < 2" "\<forall>x \<in> set [1, 3 :: real]. 0 \<le> x" "\<forall>x \<in> set [2, 0 :: real]. 0 \<le> x"
    by simp_all
  from log_posterior_negative_is_minus [OF this, of gammaln_floor 1]
  have "length [1, 3 :: real] = length [2, 0 :: real] \<longrightarrow>
          (\<exists>v. log_posterior gammaln_floor 2 [1, 3] [2, 0] False = Inr (Finite v)
             \<and> log_posterior gammaln_floor 2 [1, 3] [2, 0] True = Inr (Finite (- 1 * v)))"
    by blast
  then show ?thesis by simp
qed

subsection \<open>The call and the state of the script\<close>

lemma np_plus_NaN [simp]: "np_plus x NaN = NaN"
  by (cases x) simp_all

lemma np_times_NaN [simp]: "np_times x NaN = NaN"
  by (cases x) simp_all

lemma np_add_arrays_Finite:
  "np_add_arrays (map Finite xs) (map Finite ys) = map_option (map Finite) (np_add xs ys)"
  by (cases xs; cases ys) (auto simp: np_add_arrays_def np_add_def zip_map_map)

lemma np_sum_gammaln_Finite:
  "np_sum (map (\<lambda>x. np_apply f (np_plus x (Finite 1))) (map (\<lambda>x. Finite (g x)) xs))
     = Finite (sum_list (map (\<lambda>x. f (g x + 1)) xs))"
  by (induction xs) simp_all

lemma np_sum_Finite: "np_sum (map (\<lambda>x. Finite (g x)) xs) = Finite (sum_list (map g xs))"
  by (induction xs) simp_all

lemmas run_defs = log_posterior_call_def log_posterior_body_def stmt_prefactor_def
  stmt_guard_def stmt_n1_def stmt_n2_def stmt_ntot_def stmt_binom_def gammaln_sum_def
  stmt_log_prior_def stmt_prob_def stmt_cov_def stmt_logp_def load_array_def load_number_def
  load_module_def load_builtin_def load_fast_def load_global_def store_fast_def
  and_then_def returns_def raises_def builtin_names_def libraries_bound_def

lemma call_negative_I1:
  assumes "libraries_bound globals" "\<exists>x \<in> set I1. x < 0"
  shows "log_posterior_call gammaln globals alpha I1 I2 negative
           = (Inl (ValueError ''Negative values in I1 or I2''), globals)"
  using assms by (simp add: run_defs)


lemma call_negative_I2:
  assumes "libraries_bound globals" "\<not> (\<exists>x \<in> set I1. x < 0)" "\<exists>x \<in> set I2. x < 0"
  shows "log_posterior_call gammaln globals alpha I1 I2 negative
           = (Inl (ValueError ''Negative values in I1 or I2''), globals)"
  using assms by (simp add: run_defs)

lemma call_shapes:
  assumes "libraries_bound globals" "\<not> (\<exists>x \<in> set I1. x < 0)" "\<not> (\<exists>x \<in> set I2. x < 0)"
    and "np_add I1 I2 = None"
  shows "log_posterior_call gammaln globals alpha I1 I2 negative
           = (Inl (ValueError ''operands could not be broadcast together''), globals)"
  using assms by (simp add: run_defs np_add_arrays_Finite)

lemma call_nonpositive:
  assumes "libraries_bound globals" "\<not> (\<exists>x \<in> set I1. x < 0)" "\<not> (\<exists>x \<in> set I2. x < 0)"
    and "np_add I1 I2 = Some I12" "alpha \<le> 0"
  shows "log_posterior_call gammaln globals alpha I1 I2 negative = (Inr NaN, globals)"
  using assms by (simp add: run_defs np_add_arrays_Finite)

lemma call_positive:
  assumes "libraries_bound globals" "\<not> (\<exists>x \<in> set I1. x < 0)" "\<not> (\<exists>x \<in> set I2. x < 0)"
    and "np_add I1 I2 = Some I12" "0 < alpha"
  shows "log_posterior_call gammaln globals alpha I1 I2 negative
           = (log_posterior gammaln alpha I1 I2 negative, globals)"
  using assms
  by (simp add: run_defs np_add_arrays_Finite log_posterior_def Let_def comp_def
        np_sum_gammaln_Finite np_sum_Finite)


lemma call_without_scipy:
  "log_posterior_call gammaln [''np'' \<mapsto> Module ''numpy''] 2 [1, 3] [2, 0] False
     = (Inl (NameError ''scipy''), [''np'' \<mapsto> Module ''numpy''])"
  by (simp add: run_defs np_add_arrays_def)

text \<open>
  C6. In every state of the script's globals in which \<open>scipy\<close> and \<open>np\<close> are the
  imported modules and \<open>len\<close> and \<open>ValueError\<close> are the builtins, a call of
  \<open>log_posterior\<close> leaves the globals as they were, and its outcome is the same in any
  two such states: it is the value of the function of the four arguments defined above,
  whose only constants besides the arguments are the location 0 and the scale 500 of
  the prior. The module bindings are all that the body reads outside its arguments.
\<close>

theorem log_posterior_self_contained:
  assumes "libraries_bound globals" "libraries_bound globals'"
  shows "fst (log_posterior_call gammaln globals alpha I1 I2 negative)
           = fst (log_posterior_call gammaln globals' alpha I1 I2 negative)
       \<and> snd (log_posterior_call gammaln globals alpha I1 I2 negative) = globals
       \<and> fst (log_posterior_call gammaln globals alpha I1 I2 negative)
           = log_posterior gammaln alpha I1 I2 negative"
proof -
  have run: "log_posterior_call gammaln g alpha I1 I2 negative
               = (log_posterior gammaln alpha I1 I2 negative, g)"
    if "libraries_bound g" for g
  proof (cases "(\<exists>x \<in> set I1. x < 0) \<or> (\<exists>x \<in> set I2. x < 0)")
    case True
    then have "log_posterior_call gammaln g alpha I1 I2 negative
                 = (Inl (ValueError ''Negative values in I1 or I2''), g)"
      using call_negative_I1 [OF that] call_negative_I2 [OF that] by blast
    then show ?thesis using True by (simp add: log_posterior_def Let_def)
  next
    case False
    then have n1: "\<not> (\<exists>x \<in> set I1. x < 0)" and n2: "\<not> (\<exists>x \<in> set I2. x < 0)" by blast+
    show ?thesis
    proof (cases "np_add I1 I2")
      case None
      show ?thesis
        using False None by (simp add: call_shapes [OF that n1 n2 None] log_posterior_def Let_def)
    next
      case (Some I12)
      show ?thesis
      proof (cases "alpha \<le> 0")
        case True
        show ?thesis
          using False Some True
          by (simp add: call_nonpositive [OF that n1 n2 Some True] log_posterior_def Let_def)
      next
        case False
        then have "0 < alpha" by simp
        then show ?thesis by (rule call_positive [OF that n1 n2 Some])
      qed
    qed
  qed
  show ?thesis
    by (simp add: run [OF assms(1)] run [OF assms(2)])
qed

theorem log_posterior_self_contained_witness:
  "fst (log_posterior_call gammaln_floor
          [''scipy'' \<mapsto> Module ''scipy'', ''np'' \<mapsto> Module ''numpy'',
           ''logp'' \<mapsto> Array [Finite 0, Finite 0], ''cov'' \<mapsto> Number (Finite 3)]
          2 [1, 3] [2, 0] False)
     = fst (log_posterior_call gammaln_floor
          [''scipy'' \<mapsto> Module ''scipy'', ''np'' \<mapsto> Module ''numpy''] 2 [1, 3] [2, 0] False)
   \<and> snd (log_posterior_call gammaln_floor
          [''scipy'' \<mapsto> Module ''scipy'', ''np'' \<mapsto> Module ''numpy'',
           ''logp'' \<mapsto> Array [Finite 0, Finite 0], ''cov'' \<mapsto> Number (Finite 3)]
          2 [1, 3] [2, 0] False) ''logp''
     = Some (Array [Finite 0, Finite 0])
   \<and> fst (log_posterior_call gammaln_floor
          [''scipy'' \<mapsto> Module ''scipy'', ''np'' \<mapsto> Module ''numpy'',
           ''logp'' \<mapsto> Array [Finite 0, Finite 0], ''cov'' \<mapsto> Number (Finite 3)]
          2 [1, 3] [2, 0] False)
     = log_posterior gammaln_floor 2 [1, 3] [2, 0] False"
proof -
  have a: "libraries_bound [''scipy'' \<mapsto> Module ''scipy'', ''np'' \<mapsto> Module ''numpy'',
             ''logp'' \<mapsto> Array [Finite 0, Finite 0], ''cov'' \<mapsto> Number (Finite 3)]"
    by (simp add: libraries_bound_def)
  have b: "libraries_bound [''scipy'' \<mapsto> Module ''scipy'', ''np'' \<mapsto> Module ''numpy'']"
    by (simp add: libraries_bound_def)
  note inst = log_posterior_self_contained [OF a b, of gammaln_floor 2 "[1, 3]" "[2, 0]" False]
  have c1: "fst (log_posterior_call gammaln_floor
          [''scipy'' \<mapsto> Module ''scipy'', ''np'' \<mapsto> Module ''numpy'',
           ''logp'' \<mapsto> Array [Finite 0, Finite 0], ''cov'' \<mapsto> Number (Finite 3)]
          2 [1, 3] [2, 0] False)
     = fst (log_posterior_call gammaln_floor
          [''scipy'' \<mapsto> Module ''scipy'', ''np'' \<mapsto> Module ''numpy''] 2 [1, 3] [2, 0] False)"
    using inst by (rule conjunct1)
  have c2: "snd (log_posterior_call gammaln_floor
          [''scipy'' \<mapsto> Module ''scipy'', ''np'' \<mapsto> Module ''numpy'',
           ''logp'' \<mapsto> Array [Finite 0, Finite 0], ''cov'' \<mapsto> Number (Finite 3)]
          2 [1, 3] [2, 0] False) ''logp''
     = Some (Array [Finite 0, Finite 0])"
    by (simp add: conjunct1 [OF conjunct2 [OF inst]])
  have c3: "fst (log_posterior_call gammaln_floor
          [''scipy'' \<mapsto> Module ''scipy'', ''np'' \<mapsto> Module ''numpy'',
           ''logp'' \<mapsto> Array [Finite 0, Finite 0], ''cov'' \<mapsto> Number (Finite 3)]
          2 [1, 3] [2, 0] False)
     = log_posterior gammaln_floor 2 [1, 3] [2, 0] False"
    using inst by (rule conjunct2 [OF conjunct2])
  show ?thesis using c1 c2 c3 by (intro conjI)
qed

section \<open>Properties of ecdf\<close>

text \<open>
  C10, as stated, says that an empty input makes the computation fail on a division by
  zero instead of returning a pair of empty arrays. The division is elementwise over an
  empty array, and the pair of empty arrays is what comes back.
\<close>

theorem ecdf_empty_returns_empty_pair: "ecdf [] = ([], [])"
  by (simp add: ecdf_def)

text \<open>
  C10, amended. \<open>ecdf\<close> returns the sorted data and the values \<open>i / n\<close> for
  \<open>i = 0, ..., n - 1\<close>; on a nonempty input the first value is 0, the last and
  largest is \<open>(n - 1) / n\<close> and every value is below 1; on the empty input it
  returns the pair of empty arrays.
\<close>

theorem ecdf_values:
  "fst (ecdf data) = sort data
   \<and> snd (ecdf data) = map (\<lambda>i. real i / real (length data)) [0..<length data]
   \<and> (data \<noteq> [] \<longrightarrow>
        hd (snd (ecdf data)) = 0
        \<and> last (snd (ecdf data)) = (real (length data) - 1) / real (length data)
        \<and> (\<forall>y \<in> set (snd (ecdf data)). y \<le> last (snd (ecdf data)) \<and> y < 1))
   \<and> (data = [] \<longrightarrow> ecdf data = ([], []))"
proof (intro conjI impI)
  show "fst (ecdf data) = sort data" by (simp add: ecdf_def)
  show "snd (ecdf data) = map (\<lambda>i. real i / real (length data)) [0..<length data]"
    by (simp add: ecdf_def)
  show "ecdf data = ([], [])" if "data = []" using that by (simp add: ecdf_def)
next
  assume ne: "data \<noteq> []"
  then have pos: "0 < length data" by simp
  have snd_eq: "snd (ecdf data) = map (\<lambda>i. real i / real (length data)) [0..<length data]"
    by (simp add: ecdf_def)
  show "hd (snd (ecdf data)) = 0"
    using pos by (simp add: snd_eq hd_map upt_conv_Cons)
  show l: "last (snd (ecdf data)) = (real (length data) - 1) / real (length data)"
  proof -
    have h: "real (length data - Suc 0) = real (length data) - 1"
      using pos by (cases "length data") simp_all
    have "last (snd (ecdf data)) = real (length data - Suc 0) / real (length data)"
      using pos by (simp add: snd_eq last_map last_upt)
    then show ?thesis by (simp only: h)
  qed
  show "\<forall>y \<in> set (snd (ecdf data)). y \<le> last (snd (ecdf data)) \<and> y < 1"
  proof
    fix y assume "y \<in> set (snd (ecdf data))"
    then obtain i where i: "i < length data" "y = real i / real (length data)"
      by (auto simp: snd_eq)
    have "real i \<le> real (length data) - 1" using i(1) by linarith
    then have "y \<le> (real (length data) - 1) / real (length data)"
      using pos i(2) by (simp add: divide_right_mono)
    moreover have "y < 1" using i pos by simp
    ultimately show "y \<le> last (snd (ecdf data)) \<and> y < 1" using l by simp
  qed
qed

theorem ecdf_values_witness:
  "ecdf [3, 1, 2] = ([1, 2, 3], [0, 1 / 3, 2 / 3])
   \<and> hd (snd (ecdf [3, 1, 2])) = 0
   \<and> last (snd (ecdf [3, 1, 2])) = (real (length [3, 1, 2 :: real]) - 1) / real (length [3, 1, 2 :: real])"
  using ecdf_values [of "[3, 1, 2]"] by (simp add: ecdf_def upt_rec)

section \<open>Properties of SimpleRepression\<close>

lemma check_provided_never [simp]: "check_provided args = None"
  by (induction args) (auto simp: type_is_None_def)

lemma MWC_init_ep_ai:
  assumes "MWC_init effector_conc ka ki ep_ai n_sites log_transform = Inr m"
  shows "mwc_ep_ai m = ep_ai"
  using assms
  by (auto simp: MWC_init_def Let_def split: if_splits option.splits)

lemma SimpleRepression_init_mwc:
  assumes "SimpleRepression_init R ep_r n_ns kwargs = Inr self"
  shows "(kwargs \<noteq> [] \<longrightarrow>
            (\<exists>m. sr_mwc self = Some m
                 \<and> mwc_ep_ai m = number_arg (keyword kwargs ''ep_ai'' PyNone)))
       \<and> (kwargs = [] \<longrightarrow> sr_mwc self = None)"
  using assms
  by (auto simp: SimpleRepression_init_def MWC_new_def
           split: option.splits if_splits sum.splits dest: MWC_init_ep_ai)

text \<open>
  A keyword passed as \<open>None\<close> is a keyword: the dict is not empty, \<open>MWC\<close> is
  constructed, and the positivity loop raises TypeError on the \<open>effector_conc\<close> that
  was left at \<open>None\<close>.
\<close>

lemma init_with_None_keyword:
  "SimpleRepression_init 260 (- 13.9) 4600000 [(''ep_ai'', PyNone)] = Inl TypeError"
  by (simp add: SimpleRepression_init_def MWC_new_def MWC_parameters_def keyword_def
        MWC_init_def)

lemma init_with_unknown_keyword:
  "SimpleRepression_init 260 (- 13.9) 4600000 [(''ep_a'', PyNumber 4.5)] = Inl TypeError"
  by (simp add: SimpleRepression_init_def MWC_new_def MWC_parameters_def)

text \<open>
  What \<open>saturation\<close> does on the instances for which the constructor's checks were
  written: with a number as \<open>ep_ai\<close> and a power \<open>(ka / ki)**n\<close> within the floats
  it returns \<open>None\<close>; a power beyond the largest float raises OverflowError before
  the bare \<open>return\<close>; a non-allosteric instance raises RuntimeError.
\<close>

lemma saturation_returns_None:
  assumes "sr_mwc self = Some m" "mwc_ep_ai m = Some ep_ai"
    and "mwc_numpy m \<or> \<not> float_pow_overflows (mwc_ka m / mwc_ki m) (mwc_n m)"
  shows "SimpleRepression_saturation self wpa num_pol ep_pol = Inr None"
  using assms
  by (auto simp: SimpleRepression_saturation_def MWC_saturation_run_def MWC_saturation_def
        Let_def)

lemma saturation_not_allosteric:
  assumes "\<not> allo self"
  shows "SimpleRepression_saturation self wpa num_pol ep_pol
           = Inl (RuntimeError
               ''Saturation is only defined for allosteric molecules. (`allosteric = True`)'')"
  using assms by (simp add: allo_def SimpleRepression_saturation_def)

lemma saturation_overflow:
  "SimpleRepression_init 260 (- 13.9) 4600000
     [(''effector_conc'', PyNumber 50), (''ka'', PyNumber (10 ^ 200)), (''ki'', PyNumber 1),
      (''ep_ai'', PyNumber 4.5)]
     = Inr \<lparr>sr_R = 260, sr_ep_r = - 13.9, sr_n_ns = 4600000,
            sr_mwc = Some \<lparr>mwc_c = 50, mwc_ep_ai = Some 4.5, mwc_n = 2, mwc_ka = 10 ^ 200,
                            mwc_ki = 1, mwc_numpy = False\<rparr>\<rparr>
   \<and> SimpleRepression_saturation
         \<lparr>sr_R = 260, sr_ep_r = - 13.9, sr_n_ns = 4600000,
          sr_mwc = Some \<lparr>mwc_c = 50, mwc_ep_ai = Some 4.5, mwc_n = 2, mwc_ka = 10 ^ 200,
                          mwc_ki = 1, mwc_numpy = False\<rparr>\<rparr> True None 0
       = Inl OverflowError"
proof -
  have a: "(10::real) ^ 200 \<le> float_max"
    by (simp add: float_max_def)
  have b: "float_max < ((10::real) ^ 200) powr 2"
    by (simp add: float_max_def)
  show ?thesis
    using a b
    by (simp add: SimpleRepression_init_def MWC_new_def MWC_parameters_def keyword_def
          MWC_init_def SimpleRepression_saturation_def MWC_saturation_run_def
          float_pow_overflows_def)
qed

text \<open>
  C8. The claim is that \<open>saturation\<close> returns \<open>None\<close> on every instance
  constructed with allosteric keyword arguments. \<open>SimpleRepression(260, -13.9,
  effector_conc=50, ka=139, ki=0.53)\<close> is such an instance, and on it the call raises
  TypeError: the constructor of \<open>MWC\<close> accepts the \<open>ep_ai\<close> left at \<open>None\<close>,
  because its check that the values are provided never fires, and
  \<open>self.mwc.saturation()\<close>, which runs before the bare \<open>return\<close>, negates
  \<open>None\<close>.
\<close>

theorem saturation_without_ep_ai_raises_TypeError:
  "check_provided [(''effector_conc'', Some 50), (''ka'', Some 139), (''ki'', Some 0.53),
                   (''ep_ai'', None), (''n_sites'', Some 2)] = None
   \<and> SimpleRepression_init 260 (- 13.9) 4600000
       [(''effector_conc'', PyNumber 50), (''ka'', PyNumber 139), (''ki'', PyNumber 0.53)]
     = Inr \<lparr>sr_R = 260, sr_ep_r = - 13.9, sr_n_ns = 4600000,
            sr_mwc = Some \<lparr>mwc_c = 50, mwc_ep_ai = None, mwc_n = 2, mwc_ka = 139,
                            mwc_ki = 0.53, mwc_numpy = False\<rparr>\<rparr>
   \<and> allo \<lparr>sr_R = 260, sr_ep_r = - 13.9, sr_n_ns = 4600000,
            sr_mwc = Some \<lparr>mwc_c = 50, mwc_ep_ai = None, mwc_n = 2, mwc_ka = 139,
                            mwc_ki = 0.53, mwc_numpy = False\<rparr>\<rparr>
   \<and> SimpleRepression_saturation
         \<lparr>sr_R = 260, sr_ep_r = - 13.9, sr_n_ns = 4600000,
          sr_mwc = Some \<lparr>mwc_c = 50, mwc_ep_ai = None, mwc_n = 2, mwc_ka = 139,
                          mwc_ki = 0.53, mwc_numpy = False\<rparr>\<rparr> True None 0
       = Inl TypeError"
  by (simp add: type_is_None_def SimpleRepression_init_def MWC_new_def MWC_parameters_def
        keyword_def MWC_init_def allo_def SimpleRepression_saturation_def
        MWC_saturation_run_def)

text \<open>
  What \<open>leakiness\<close> and \<open>dynamic_range\<close> do on the instances for which the
  constructor's checks were written: \<open>dynamic_range\<close> raises NameError for
  \<open>saturation\<close> on every instance, and \<open>leakiness\<close> raises NameError for
  \<open>fold_change\<close> on a non-allosteric instance and on an allosteric one whose
  \<open>ep_ai\<close> is a number.
\<close>

lemma dynamic_range_NameError:
  "SimpleRepression_dynamic_range self wpa num_pol ep_pol = Inl (NameError ''saturation'')"
  by (simp add: SimpleRepression_dynamic_range_def load_name_def module_names_def)

lemma leakiness_NameError:
  assumes "sr_mwc self = None \<or> (\<exists>m ep_ai. sr_mwc self = Some m \<and> mwc_ep_ai m = Some ep_ai)"
  shows "SimpleRepression_leakiness self wpa num_pol ep_pol = Inl (NameError ''fold_change'')"
  using assms
  by (auto simp: SimpleRepression_leakiness_def allo_def load_name_def module_names_def
        MWC_leakiness_def)

text \<open>
  C9. The claim is that every call of \<open>leakiness\<close> raises NameError. On
  \<open>SimpleRepression(260, -13.9, effector_conc=50, ka=139, ki=0.53)\<close>, which the
  constructor of \<open>MWC\<close> accepts with \<open>ep_ai\<close> left at \<open>None\<close> because its check
  that the values are provided never fires, \<open>self.mwc.leakiness()\<close> negates
  \<open>None\<close> and raises TypeError before the name \<open>fold_change\<close> is loaded.
\<close>

theorem leakiness_without_ep_ai_raises_TypeError:
  "MWC_init (Some 50) (Some 139) (Some 0.53) None (Some 2) False
     = Inr \<lparr>mwc_c = 50, mwc_ep_ai = None, mwc_n = 2, mwc_ka = 139, mwc_ki = 0.53,
            mwc_numpy = False\<rparr>
   \<and> SimpleRepression_leakiness
       \<lparr>sr_R = 260, sr_ep_r = - 13.9, sr_n_ns = 4600000,
        sr_mwc = Some \<lparr>mwc_c = 50, mwc_ep_ai = None, mwc_n = 2, mwc_ka = 139,
                        mwc_ki = 0.53, mwc_numpy = False\<rparr>\<rparr> True None 0
     = Inl TypeError
   \<and> SimpleRepression_dynamic_range
       \<lparr>sr_R = 260, sr_ep_r = - 13.9, sr_n_ns = 4600000,
        sr_mwc = Some \<lparr>mwc_c = 50, mwc_ep_ai = None, mwc_n = 2, mwc_ka = 139,
                        mwc_ki = 0.53, mwc_numpy = False\<rparr>\<rparr> True None 0
     = Inl (NameError ''saturation'')"
  by (simp add: type_is_None_def MWC_init_def SimpleRepression_leakiness_def allo_def
        MWC_leakiness_def SimpleRepression_dynamic_range_def load_name_def module_names_def)

section \<open>Properties of MWC\<close>

lemma pact_ratio_form:
  fixes c ka ki n e :: real
  assumes "0 < ka" "0 < ki" "0 < c" "0 < e"
  shows "(1 + c / ka) powr n / ((1 + c / ka) powr n + e * (1 + c / ki) powr n)
           = 1 / (1 + e * ((inverse c + 1 / ki) / (inverse c + 1 / ka)) powr n)"
proof -
  have a: "0 < 1 + c / ka" and b: "0 < 1 + c / ki"
    using assms by (simp_all add: add_pos_nonneg)
  have "inverse c + 1 / ki = (1 + c / ki) / c" "inverse c + 1 / ka = (1 + c / ka) / c"
    using assms by (simp_all add: field_simps)
  then have ratio: "(inverse c + 1 / ki) / (inverse c + 1 / ka) = (1 + c / ki) / (1 + c / ka)"
    using assms by simp
  have pa: "0 < (1 + c / ka) powr n" using a by simp
  have "(1 + c / ki) powr n = ((1 + c / ki) / (1 + c / ka)) powr n * (1 + c / ka) powr n"
    using a b by (simp add: powr_divide)
  then have "(1 + c / ka) powr n + e * (1 + c / ki) powr n
               = (1 + c / ka) powr n * (1 + e * ((1 + c / ki) / (1 + c / ka)) powr n)"
    by (simp add: algebra_simps)
  then show ?thesis
    using pa by (simp add: ratio)
qed

lemma ratio_tendsto:
  fixes ka ki :: real
  assumes "0 < ka" "0 < ki"
  shows "((\<lambda>c. (inverse c + 1 / ki) / (inverse c + 1 / ka)) \<longlongrightarrow> ka / ki) at_top"
proof -
  have inv0: "((\<lambda>c::real. inverse c) \<longlongrightarrow> 0) at_top"
    by (rule tendsto_inverse_0_at_top) (rule filterlim_ident)
  have "((\<lambda>c. (inverse c + 1 / ki) / (inverse c + 1 / ka)) \<longlongrightarrow> (0 + 1 / ki) / (0 + 1 / ka)) at_top"
    using assms by (intro tendsto_intros inv0) simp
  then show ?thesis using assms by (simp add: field_simps)
qed

lemma pact_tendsto:
  fixes ka ki n e :: real
  assumes "0 < ka" "0 < ki" "0 < e"
  shows "((\<lambda>c. (1 + c / ka) powr n / ((1 + c / ka) powr n + e * (1 + c / ki) powr n))
            \<longlongrightarrow> 1 / (1 + e * (ka / ki) powr n)) at_top"
proof -
  have kk: "ka / ki \<noteq> 0" using assms by simp
  have pos: "1 + e * (ka / ki) powr n \<noteq> 0"
  proof -
    have "0 \<le> e * (ka / ki) powr n" using assms by simp
    then show ?thesis by linarith
  qed
  have "((\<lambda>c. ((inverse c + 1 / ki) / (inverse c + 1 / ka)) powr n)
            \<longlongrightarrow> (ka / ki) powr n) at_top"
    by (rule tendsto_powr [OF ratio_tendsto [OF assms(1,2)] tendsto_const kk])
  then have q: "((\<lambda>c. 1 / (1 + e * ((inverse c + 1 / ki) / (inverse c + 1 / ka)) powr n))
            \<longlongrightarrow> 1 / (1 + e * (ka / ki) powr n)) at_top"
    by (intro tendsto_divide tendsto_add tendsto_mult tendsto_const pos)
  have ev: "eventually (\<lambda>c. 1 / (1 + e * ((inverse c + 1 / ki) / (inverse c + 1 / ka)) powr n)
              = (1 + c / ka) powr n / ((1 + c / ka) powr n + e * (1 + c / ki) powr n)) at_top"
    using eventually_gt_at_top [of "0::real"]
    by (rule eventually_mono) (simp add: pact_ratio_form [OF assms(1,2) _ assms(3)])
  show ?thesis
    by (rule Lim_transform_eventually [OF q ev])
qed

text \<open>
  C4. On an instance with positive \<open>ka\<close>, \<open>ki\<close>, \<open>n_sites\<close> and a number as
  \<open>ep_ai\<close>: \<open>leakiness()\<close> is \<open>pact()\<close> of the same instance with effector
  concentration 0, namely \<open>(1 + exp(-ep_ai))^(-1)\<close>; \<open>saturation()\<close> is
  \<open>(1 + exp(-ep_ai) * (ka / ki)^n)^(-1)\<close>, and \<open>pact()\<close> tends to it as the effector
  concentration goes to infinity.
\<close>

theorem MWC_leakiness_saturation_limits:
  assumes "0 < mwc_ka m" "0 < mwc_ki m" "0 < mwc_n m" "mwc_ep_ai m = Some ep_ai"
  shows "MWC_leakiness m = MWC_pact (m\<lparr>mwc_c := 0\<rparr>)
       \<and> MWC_leakiness m = Inr (inverse (1 + exp (- ep_ai)))
       \<and> MWC_saturation m
           = Inr (inverse (1 + exp (- ep_ai) * (mwc_ka m / mwc_ki m) powr mwc_n m))
       \<and> (\<exists>p s. (\<forall>c. MWC_pact (m\<lparr>mwc_c := c\<rparr>) = Inr (p c))
                \<and> MWC_saturation m = Inr s \<and> (p \<longlongrightarrow> s) at_top)"
proof (intro conjI)
  have e1: "0 < 1 + exp (- ep_ai)" by (simp add: add_pos_pos)
  have e2: "0 < 1 + exp (- ep_ai) * (mwc_ka m / mwc_ki m) powr mwc_n m"
    by (simp add: add_pos_nonneg)
  show leak: "MWC_leakiness m = Inr (inverse (1 + exp (- ep_ai)))"
    using e1 assms(4) by (simp add: MWC_leakiness_def powr_minus)
  show "MWC_leakiness m = MWC_pact (m\<lparr>mwc_c := 0\<rparr>)"
    using e1 assms(4) by (simp add: leak MWC_pact_def Let_def inverse_eq_divide)
  show sat: "MWC_saturation m
           = Inr (inverse (1 + exp (- ep_ai) * (mwc_ka m / mwc_ki m) powr mwc_n m))"
    using e2 assms(4) by (simp add: MWC_saturation_def Let_def powr_minus)
  let ?p = "\<lambda>c. (1 + c / mwc_ka m) powr mwc_n m
              / ((1 + c / mwc_ka m) powr mwc_n m
                 + exp (- ep_ai) * (1 + c / mwc_ki m) powr mwc_n m)"
  have p: "\<forall>c. MWC_pact (m\<lparr>mwc_c := c\<rparr>) = Inr (?p c)"
    using assms(4) by (simp add: MWC_pact_def Let_def)
  have lim: "(?p \<longlongrightarrow> inverse (1 + exp (- ep_ai) * (mwc_ka m / mwc_ki m) powr mwc_n m)) at_top"
    using pact_tendsto [OF assms(1,2), of "exp (- ep_ai)" "mwc_n m"]
    by (simp add: inverse_eq_divide)
  show "\<exists>p s. (\<forall>c. MWC_pact (m\<lparr>mwc_c := c\<rparr>) = Inr (p c))
                \<and> MWC_saturation m = Inr s \<and> (p \<longlongrightarrow> s) at_top"
    using p sat lim by (intro exI conjI)
qed

theorem MWC_leakiness_saturation_limits_witness:
  "MWC_leakiness \<lparr>mwc_c = 50, mwc_ep_ai = Some 4.5, mwc_n = 2, mwc_ka = 139, mwc_ki = 0.53,
       mwc_numpy = False\<rparr>
     = MWC_pact \<lparr>mwc_c = 0, mwc_ep_ai = Some 4.5, mwc_n = 2, mwc_ka = 139, mwc_ki = 0.53,
       mwc_numpy = False\<rparr>
   \<and> MWC_saturation \<lparr>mwc_c = 50, mwc_ep_ai = Some 4.5, mwc_n = 2, mwc_ka = 139, mwc_ki = 0.53,
       mwc_numpy = False\<rparr>
     = Inr (inverse (1 + exp (- 4.5) * (139 / 0.53) powr 2))"
  using MWC_leakiness_saturation_limits
    [of "\<lparr>mwc_c = 50, mwc_ep_ai = Some 4.5, mwc_n = 2, mwc_ka = 139, mwc_ki = 0.53,
       mwc_numpy = False\<rparr>" "4.5"]
  by simp

section \<open>The log posterior and the closed form\<close>

lemma halfnorm_logpdf_is_ln_pdf:
  assumes "0 < scale"
  shows "halfnorm_logpdf loc scale x = ln (halfnorm_pdf loc scale x)"
proof -
  have s: "0 < sqrt (2 / pi)" by simp
  have "ln (halfnorm_pdf loc scale x)
          = ln (sqrt (2 / pi) / scale) + ln (exp (- (((x - loc) / scale) ^ 2) / 2))"
    unfolding halfnorm_pdf_def using s assms by (intro ln_mult_pos) simp_all
  also have "ln (sqrt (2 / pi) / scale) = ln (sqrt (2 / pi)) - ln scale"
    using s assms by (intro ln_divide_pos) simp_all
  also have "ln (sqrt (2 / pi)) = ln (2 / pi) / 2"
    by (intro ln_sqrt) simp
  finally show ?thesis
    by (simp add: halfnorm_logpdf_def Let_def power2_eq_square)
qed

lemma binom_sums_as_zip:
  fixes f :: "real \<Rightarrow> real"
  assumes "length I1 = length I2"
  shows "sum_list (map (\<lambda>x. f (x + 1)) (map (\<lambda>x. x / alpha) (map2 (+) I1 I2)))
           - sum_list (map (\<lambda>x. f (x + 1)) (map (\<lambda>x. x / alpha) I1))
           - sum_list (map (\<lambda>x. f (x + 1)) (map (\<lambda>x. x / alpha) I2))
         = sum_list (map2 (\<lambda>a b. f ((a + b) / alpha + 1) - f (a / alpha + 1)
                                    - f (b / alpha + 1)) I1 I2)"
  using assms by (induction I1 I2 rule: list_induct2) (simp_all add: algebra_simps)

lemma ntot_sum_as_zip:
  fixes alpha :: real
  assumes "length I1 = length I2"
  shows "sum_list (map (\<lambda>x. x / alpha) (map2 (+) I1 I2))
         = sum_list (map2 (\<lambda>a b. (a + b) / alpha) I1 I2)"
  using assms by (induction I1 I2 rule: list_induct2) simp_all

lemma ln_prod_terms:
  fixes alpha :: real
  assumes "length I1 = length I2" "0 < alpha"
    and "\<forall>x \<in> set I1. 0 \<le> x" "\<forall>x \<in> set I2. 0 \<le> x"
    and "\<forall>x\<ge>1. 0 < G x"
  shows "0 < prod_list (map2 (\<lambda>a b. G ((a + b) / alpha + 1)
                               / (G (a / alpha + 1) * G (b / alpha + 1))
                               * 2 powr (- ((a + b) / alpha))) I1 I2)
       \<and> ln (prod_list (map2 (\<lambda>a b. G ((a + b) / alpha + 1)
                               / (G (a / alpha + 1) * G (b / alpha + 1))
                               * 2 powr (- ((a + b) / alpha))) I1 I2))
         = sum_list (map2 (\<lambda>a b. ln (G ((a + b) / alpha + 1)) - ln (G (a / alpha + 1))
                                    - ln (G (b / alpha + 1))) I1 I2)
           - ln 2 * sum_list (map2 (\<lambda>a b. (a + b) / alpha) I1 I2)"
  using assms
proof (induction I1 I2 rule: list_induct2)
  case Nil
  then show ?case by simp
next
  case (Cons a I1 b I2)
  let ?t = "\<lambda>a b. G ((a + b) / alpha + 1) / (G (a / alpha + 1) * G (b / alpha + 1))
                  * 2 powr (- ((a + b) / alpha))"
  have ab: "0 \<le> a" "0 \<le> b" using Cons.prems by simp_all
  have g1: "0 < G ((a + b) / alpha + 1)" and g2: "0 < G (a / alpha + 1)"
    and g3: "0 < G (b / alpha + 1)"
    using Cons.prems(1,4) ab by simp_all
  have IH: "0 < prod_list (map2 ?t I1 I2)"
    "ln (prod_list (map2 ?t I1 I2))
       = sum_list (map2 (\<lambda>a b. ln (G ((a + b) / alpha + 1)) - ln (G (a / alpha + 1))
                                  - ln (G (b / alpha + 1))) I1 I2)
         - ln 2 * sum_list (map2 (\<lambda>a b. (a + b) / alpha) I1 I2)"
    using Cons.IH Cons.prems by simp_all
  have q: "0 < G ((a + b) / alpha + 1) / (G (a / alpha + 1) * G (b / alpha + 1))"
    using g1 g2 g3 by simp
  have tpos: "0 < ?t a b" using q by (intro mult_pos_pos) simp_all
  have "ln (?t a b) = ln (G ((a + b) / alpha + 1) / (G (a / alpha + 1) * G (b / alpha + 1)))
                        + ln (2 powr (- ((a + b) / alpha)))"
    using q by (intro ln_mult_pos) simp_all
  also have "ln (G ((a + b) / alpha + 1) / (G (a / alpha + 1) * G (b / alpha + 1)))
               = ln (G ((a + b) / alpha + 1)) - ln (G (a / alpha + 1) * G (b / alpha + 1))"
    using g1 g2 g3 by (intro ln_divide_pos) simp_all
  also have "ln (G (a / alpha + 1) * G (b / alpha + 1))
               = ln (G (a / alpha + 1)) + ln (G (b / alpha + 1))"
    using g2 g3 by (intro ln_mult_pos) simp_all
  also have "ln (2 powr (- ((a + b) / alpha))) = - ((a + b) / alpha) * ln 2"
    by (simp add: ln_powr)
  finally have lt: "ln (?t a b) = ln (G ((a + b) / alpha + 1)) - ln (G (a / alpha + 1))
                       - ln (G (b / alpha + 1)) - ln 2 * ((a + b) / alpha)"
    by (simp add: algebra_simps)
  have lm: "ln (?t a b * prod_list (map2 ?t I1 I2)) = ln (?t a b) + ln (prod_list (map2 ?t I1 I2))"
    using tpos IH(1) by (intro ln_mult_pos) simp_all
  have unfoldP: "prod_list (map2 ?t (a # I1) (b # I2)) = ?t a b * prod_list (map2 ?t I1 I2)"
    by simp
  show ?case
  proof (intro conjI)
    show "0 < prod_list (map2 ?t (a # I1) (b # I2))"
      unfolding unfoldP using tpos IH(1) by (rule mult_pos_pos)
    show "ln (prod_list (map2 ?t (a # I1) (b # I2)))
            = sum_list (map2 (\<lambda>a b. ln (G ((a + b) / alpha + 1)) - ln (G (a / alpha + 1))
                                      - ln (G (b / alpha + 1))) (a # I1) (b # I2))
              - ln 2 * sum_list (map2 (\<lambda>a b. (a + b) / alpha) (a # I1) (b # I2))"
      unfolding unfoldP lm IH(2) lt by (simp add: algebra_simps)
  qed
qed

text \<open>
  C1. For \<open>alpha > 0\<close> and equal-length arrays of nonnegative intensities,
  \<open>log_posterior(alpha, I1, I2)\<close> returns the logarithm of the closed-form posterior,
  where \<open>gammaln\<close> is the logarithm of the Gamma function \<open>G\<close>; it is the sum of the
  half-normal(0, 500) log prior, the term \<open>-k * log(alpha)\<close> with \<open>k = len(I1)\<close>, the
  sum of \<open>gammaln((I1_i + I2_i)/alpha + 1) - gammaln(I1_i/alpha + 1) -
  gammaln(I2_i/alpha + 1)\<close>, and \<open>-(log 2)\<close> times the sum of \<open>(I1_i + I2_i)/alpha\<close>.
\<close>

theorem log_posterior_closed_form:
  assumes "0 < alpha" "length I1 = length I2"
    and "\<forall>x \<in> set I1. 0 \<le> x" "\<forall>x \<in> set I2. 0 \<le> x"
    and "\<forall>x\<ge>1. 0 < G x" "\<forall>x\<ge>1. gammaln x = ln (G x)"
  shows "log_posterior gammaln alpha I1 I2 False
           = Inr (Finite (ln (closed_form_posterior G alpha I1 I2)))
       \<and> log_posterior gammaln alpha I1 I2 False
           = Inr (Finite
               (halfnorm_logpdf 0 500 alpha
                + (- real (length I1) * ln alpha)
                + sum_list (map2 (\<lambda>a b. gammaln ((a + b) / alpha + 1)
                                    - gammaln (a / alpha + 1) - gammaln (b / alpha + 1)) I1 I2)
                + (- ln 2 * sum_list (map2 (\<lambda>a b. (a + b) / alpha) I1 I2))))
       \<and> halfnorm_logpdf 0 500 alpha = ln (halfnorm_pdf 0 500 alpha)"
proof -
  let ?S = "sum_list (map2 (\<lambda>a b. gammaln ((a + b) / alpha + 1)
                                    - gammaln (a / alpha + 1) - gammaln (b / alpha + 1)) I1 I2)"
  let ?T = "sum_list (map2 (\<lambda>a b. (a + b) / alpha) I1 I2)"
  let ?P = "prod_list (map2 (\<lambda>a b. G ((a + b) / alpha + 1)
                               / (G (a / alpha + 1) * G (b / alpha + 1))
                               * 2 powr (- ((a + b) / alpha))) I1 I2)"
  have noneg: "\<not> ((\<exists>x \<in> set I1. x < 0) \<or> (\<exists>x \<in> set I2. x < 0))"
    using assms(3,4) by (auto simp: not_less)
  have code: "log_posterior gammaln alpha I1 I2 False
           = Inr (Finite (halfnorm_logpdf 0 500 alpha + (- real (length I1) * ln alpha)
                          + ?S + (- ln 2 * ?T)))"
  proof -
    have reorder: "1 * (- n * l + k + b + h) = h + k + b + (- l * n)" for n l k b h :: real
      by simp
    define B where "B = sum_list (map (\<lambda>x. gammaln (x + 1)) (map (\<lambda>x. x / alpha) (map2 (+) I1 I2)))
           - sum_list (map (\<lambda>x. gammaln (x + 1)) (map (\<lambda>x. x / alpha) I1))
           - sum_list (map (\<lambda>x. gammaln (x + 1)) (map (\<lambda>x. x / alpha) I2))"
    define N where "N = sum_list (map (\<lambda>x. x / alpha) (map2 (+) I1 I2))"
    have B: "B = ?S" unfolding B_def by (rule binom_sums_as_zip [OF assms(2)])
    have N: "N = ?T" unfolding N_def by (rule ntot_sum_as_zip [OF assms(2)])
    have "log_posterior gammaln alpha I1 I2 False
            = Inr (Finite (1 * (- N * ln 2 + - real (length I1) * ln alpha + B
                                + halfnorm_logpdf 0 500 alpha)))"
      using noneg assms(1,2)
      by (simp add: log_posterior_def np_add_def Let_def B_def N_def)
    also have "1 * (- N * ln 2 + - real (length I1) * ln alpha + B + halfnorm_logpdf 0 500 alpha)
                 = halfnorm_logpdf 0 500 alpha + (- real (length I1) * ln alpha) + B + (- ln 2 * N)"
      by (rule reorder)
    finally show ?thesis unfolding B N .
  qed
  have prior: "halfnorm_logpdf 0 500 alpha = ln (halfnorm_pdf 0 500 alpha)"
    by (rule halfnorm_logpdf_is_ln_pdf) simp
  have gl: "?S = sum_list (map2 (\<lambda>a b. ln (G ((a + b) / alpha + 1)) - ln (G (a / alpha + 1))
                                    - ln (G (b / alpha + 1))) I1 I2)"
  proof (rule arg_cong [where f = sum_list], rule map_cong [OF refl])
    fix p assume "p \<in> set (zip I1 I2)"
    then have "(fst p, snd p) \<in> set (zip I1 I2)" by simp
    then have "fst p \<in> set I1" "snd p \<in> set I2"
      by (rule set_zip_leftD, rule set_zip_rightD)
    then have "0 \<le> fst p" "0 \<le> snd p" using assms(3,4) by simp_all
    then have "1 \<le> (fst p + snd p) / alpha + 1" "1 \<le> fst p / alpha + 1"
      "1 \<le> snd p / alpha + 1"
      using assms(1) by simp_all
    then show "(case p of (a, b) \<Rightarrow> gammaln ((a + b) / alpha + 1) - gammaln (a / alpha + 1)
                   - gammaln (b / alpha + 1))
             = (case p of (a, b) \<Rightarrow> ln (G ((a + b) / alpha + 1)) - ln (G (a / alpha + 1))
                   - ln (G (b / alpha + 1)))"
      using assms(6) by (simp add: case_prod_beta)
  qed
  note lp = ln_prod_terms [OF assms(2,1,3,4,5)]
  have ppos: "0 < ?P" using lp by (rule conjunct1)
  have pln: "ln ?P = ?S - ln 2 * ?T" unfolding gl using lp by (rule conjunct2)
  have g0: "0 < halfnorm_pdf 0 500 alpha"
    unfolding halfnorm_pdf_def by (intro mult_pos_pos divide_pos_pos) simp_all
  have a0: "0 < 1 / alpha ^ length I1" using assms(1) by simp
  have ga0: "0 < halfnorm_pdf 0 500 alpha * (1 / alpha ^ length I1)"
    using g0 a0 by (rule mult_pos_pos)
  have l1: "ln (closed_form_posterior G alpha I1 I2)
          = ln (halfnorm_pdf 0 500 alpha * (1 / alpha ^ length I1)) + ln ?P"
    unfolding closed_form_posterior_def using ga0 ppos by (rule ln_mult_pos)
  have l2: "ln (halfnorm_pdf 0 500 alpha * (1 / alpha ^ length I1))
               = ln (halfnorm_pdf 0 500 alpha) + ln (1 / alpha ^ length I1)"
    using g0 a0 by (rule ln_mult_pos)
  have l3: "ln (1 / alpha ^ length I1) = - real (length I1) * ln alpha"
    using assms(1) by (simp add: ln_divide_pos ln_realpow)
  have arith: "A + K + (S - L * T) = A + K + S + (- L * T)" for A K S L T :: real
    by simp
  have cf: "ln (closed_form_posterior G alpha I1 I2)
          = halfnorm_logpdf 0 500 alpha + (- real (length I1) * ln alpha) + ?S + (- ln 2 * ?T)"
    unfolding l1 l2 l3 pln prior by (rule arith)
  show ?thesis
  proof (intro conjI)
    show "log_posterior gammaln alpha I1 I2 False
           = Inr (Finite (ln (closed_form_posterior G alpha I1 I2)))"
      unfolding cf by (rule code)
    show "log_posterior gammaln alpha I1 I2 False
           = Inr (Finite
               (halfnorm_logpdf 0 500 alpha
                + (- real (length I1) * ln alpha)
                + ?S + (- ln 2 * ?T)))"
      by (rule code)
    show "halfnorm_logpdf 0 500 alpha = ln (halfnorm_pdf 0 500 alpha)"
      by (rule prior)
  qed
qed

theorem log_posterior_closed_form_witness:
  "log_posterior gammaln_floor 2 [1, 3] [2, 0] False
     = Inr (Finite (ln (closed_form_posterior gamma_floor 2 [1, 3] [2, 0])))"
proof -
  have "(0::real) < 2" "length [1, 3 :: real] = length [2, 0 :: real]"
    "\<forall>x \<in> set [1, 3 :: real]. 0 \<le> x" "\<forall>x \<in> set [2, 0 :: real]. 0 \<le> x"
    "\<forall>x\<ge>1. 0 < gamma_floor x" "\<forall>x\<ge>1. gammaln_floor x = ln (gamma_floor x)"
    by (simp_all add: gamma_floor_def gammaln_floor_def)
  from log_posterior_closed_form [OF this] show ?thesis by blast
qed

section \<open>Grid search and scalar optimisation\<close>


























section \<open>Failure handling\<close>

lemma lower_Accepted: "str_lower ''Accepted'' = ''accepted''"
  by code_simp

lemma compile_loop_no_status:
  assumes "scrape_frontmatter d ''status'' = None"
  shows "compile_loop scrape_frontmatter glob read_csv (d # rest) (fluct_dfs, fc_dfs)
           = Inl (KeyError ''status'')"
  using assms by simp

lemma compile_loop_no_match:
  assumes "scrape_frontmatter d ''status'' = Some status" "str_lower status = ''accepted''"
    and "glob (d @ ''/output/*fluctuations.csv'') = []"
  shows "compile_loop scrape_frontmatter glob read_csv (d # rest) (fluct_dfs, fc_dfs)
           = Inl IndexError"
  using assms by simp

lemma compile_loop_returns:
  assumes "compile_loop scrape_frontmatter glob read_csv ds acc = Inr r"
  shows "\<forall>d \<in> set ds. \<exists>status. scrape_frontmatter d ''status'' = Some status
           \<and> (str_lower status = ''accepted'' \<longrightarrow>
                  glob (d @ ''/output/*fluctuations.csv'') \<noteq> []
                  \<and> glob (d @ ''/output/*foldchange.csv'') \<noteq> [])"
  using assms
proof (induction ds arbitrary: acc)
  case Nil
  then show ?case by simp
next
  case (Cons d ds)
  obtain fluct_dfs fc_dfs where acc: "acc = (fluct_dfs, fc_dfs)" by (cases acc) auto
  from Cons.prems obtain status where st: "scrape_frontmatter d ''status'' = Some status"
    unfolding acc by (cases "scrape_frontmatter d ''status''") simp_all
  show ?case
  proof (cases "str_lower status = ''accepted''")
    case False
    then have "compile_loop scrape_frontmatter glob read_csv ds (fluct_dfs, fc_dfs) = Inr r"
      using Cons.prems st unfolding acc by simp
    then show ?thesis using Cons.IH st False by simp
  next
    case True
    from Cons.prems obtain acc' where
      g1: "glob (d @ ''/output/*fluctuations.csv'') \<noteq> []"
      and g2: "glob (d @ ''/output/*foldchange.csv'') \<noteq> []"
      and tl: "compile_loop scrape_frontmatter glob read_csv ds acc' = Inr r"
      unfolding acc using st True
      by (auto split: list.splits sum.splits)
    then show ?thesis using Cons.IH [OF tl] st by simp
  qed
qed

lemma log_posterior_rejects_negative:
  assumes "(\<exists>x \<in> set I1. x < 0) \<or> (\<exists>x \<in> set I2. x < 0)"
  shows "log_posterior gammaln alpha I1 I2 negative
           = Inl (ValueError ''Negative values in I1 or I2'')"
  using assms by (simp add: log_posterior_def Let_def)

lemma MWC_init_rejects_zero:
  assumes "ka = 0 \<or> ki = 0"
  shows "MWC_init effector_conc (Some ka) (Some ki) ep_ai n_sites log_transform
           = Inl (ValueError ''ka and/or ki cannot be zero.'')"
  using assms by (auto simp: MWC_init_def Let_def)

lemma MWC_init_rejects_negative:
  assumes "ka \<noteq> 0" "ki \<noteq> 0" "c < 0 \<or> ka < 0 \<or> ki < 0 \<or> n < 0"
  shows "MWC_init (Some c) (Some ka) (Some ki) ep_ai (Some n) False
           = Inl (RuntimeError
               ((if c < 0 then ''effector_conc'' else if ka < 0 then ''ka''
                 else if ki < 0 then ''ki'' else ''n_sites'') @ '' must be positive.''))"
  using assms by (auto simp: MWC_init_def Let_def)

lemma MWC_init_rejects_negative_log_transform:
  assumes "ka \<noteq> 0" "ki \<noteq> 0" "c < 0 \<or> n < 0"
  shows "MWC_init (Some c) (Some ka) (Some ki) ep_ai (Some n) True
           = Inl (RuntimeError
               ((if c < 0 then ''effector_conc'' else ''n_sites'') @ '' must be positive.''))"
  using assms by (auto simp: MWC_init_def Let_def not_less)

lemma SimpleRepression_init_rejects_negative:
  assumes "R < 0 \<or> n_ns < 0"
  shows "SimpleRepression_init R ep_r n_ns kwargs
           = Inl (RuntimeError ((if R < 0 then ''R'' else ''n_ns'') @ '' must be positive.''))"
  using assms by (auto simp: SimpleRepression_init_def)

text \<open>
  C3, as stated, says that no operation on the data path validates its input or raises
  a deliberate error on malformed data. \<open>log_posterior\<close> is applied to the measured
  intensities and raises ValueError when one of them is negative.
\<close>

theorem log_posterior_validates_counterexample:
  "log_posterior gammaln_floor 100 [- 1, 5] [2, 3] False
     = Inl (ValueError ''Negative values in I1 or I2'')"
  by (simp add: log_posterior_def)

text \<open>
  C3, amended. Failure handling is sparse. The loop of compile\_data.py indexes
  \<open>info['status']\<close> of every scraped readme and the first glob match of each accepted
  experiment's output CSVs with no guard and no exception handling: a readme without
  \<open>status\<close> ends the script with KeyError, an accepted experiment without a matching
  CSV ends it with IndexError, and the loop completes only if every readme has a status
  and every accepted experiment has both matches. Some operations do validate their
  input and raise a deliberate error: \<open>log_posterior\<close> raises ValueError on a
  negative intensity; \<open>MWC.__init__\<close> raises ValueError on a zero \<open>ka\<close> or
  \<open>ki\<close> and otherwise RuntimeError, naming the first of \<open>effector_conc\<close>,
  \<open>ka\<close>, \<open>ki\<close> and \<open>n_sites\<close> that is negative (with \<open>log_transform\<close> the
  stored \<open>ka\<close> and \<open>ki\<close> are exponentials, so only \<open>effector_conc\<close> and
  \<open>n_sites\<close> can be); \<open>SimpleRepression.__init__\<close> raises RuntimeError when
  \<open>R\<close> or \<open>n_ns\<close> is negative; and \<open>SimpleRepression.saturation\<close> raises
  RuntimeError on an instance that is not allosteric.
\<close>

theorem failure_handling:
  "(scrape_frontmatter d ''status'' = None \<longrightarrow>
      compile_loop scrape_frontmatter glob read_csv (d # rest) (fluct_dfs, fc_dfs)
        = Inl (KeyError ''status''))
   \<and> (scrape_frontmatter d ''status'' = Some status \<and> str_lower status = ''accepted''
        \<and> glob (d @ ''/output/*fluctuations.csv'') = [] \<longrightarrow>
      compile_loop scrape_frontmatter glob read_csv (d # rest) (fluct_dfs, fc_dfs)
        = Inl IndexError)
   \<and> (compile_loop scrape_frontmatter glob read_csv ds acc = Inr r \<longrightarrow>
        (\<forall>e \<in> set ds. \<exists>st. scrape_frontmatter e ''status'' = Some st
           \<and> (str_lower st = ''accepted'' \<longrightarrow>
                  glob (e @ ''/output/*fluctuations.csv'') \<noteq> []
                  \<and> glob (e @ ''/output/*foldchange.csv'') \<noteq> [])))
   \<and> ((\<exists>x \<in> set I1. x < 0) \<or> (\<exists>x \<in> set I2. x < 0) \<longrightarrow>
        log_posterior gammaln alpha I1 I2 negative
          = Inl (ValueError ''Negative values in I1 or I2''))
   \<and> (ka = 0 \<or> ki = 0 \<longrightarrow>
        MWC_init effector_conc (Some ka) (Some ki) ep_ai n_sites log_transform
          = Inl (ValueError ''ka and/or ki cannot be zero.''))
   \<and> (ka \<noteq> 0 \<and> ki \<noteq> 0 \<and> (c < 0 \<or> ka < 0 \<or> ki < 0 \<or> n < 0) \<longrightarrow>
        MWC_init (Some c) (Some ka) (Some ki) ep_ai (Some n) False
          = Inl (RuntimeError
              ((if c < 0 then ''effector_conc'' else if ka < 0 then ''ka''
                else if ki < 0 then ''ki'' else ''n_sites'') @ '' must be positive.'')))
   \<and> (ka \<noteq> 0 \<and> ki \<noteq> 0 \<and> (c < 0 \<or> n < 0) \<longrightarrow>
        MWC_init (Some c) (Some ka) (Some ki) ep_ai (Some n) True
          = Inl (RuntimeError
              ((if c < 0 then ''effector_conc'' else ''n_sites'') @ '' must be positive.'')))
   \<and> (R < 0 \<or> n_ns < 0 \<longrightarrow>
        SimpleRepression_init R ep_r n_ns kwargs
          = Inl (RuntimeError ((if R < 0 then ''R'' else ''n_ns'') @ '' must be positive.'')))
   \<and> (\<not> allo self \<longrightarrow>
        SimpleRepression_saturation self wpa num_pol ep_pol
          = Inl (RuntimeError
              ''Saturation is only defined for allosteric molecules. (`allosteric = True`)''))"
proof (intro conjI impI)
  show "compile_loop scrape_frontmatter glob read_csv (d # rest) (fluct_dfs, fc_dfs)
        = Inl (KeyError ''status'')" if "scrape_frontmatter d ''status'' = None"
    using that by (rule compile_loop_no_status)
  show "compile_loop scrape_frontmatter glob read_csv (d # rest) (fluct_dfs, fc_dfs)
        = Inl IndexError"
    if "scrape_frontmatter d ''status'' = Some status \<and> str_lower status = ''accepted''
        \<and> glob (d @ ''/output/*fluctuations.csv'') = []"
  proof -
    from that have a: "scrape_frontmatter d ''status'' = Some status"
      and b: "str_lower status = ''accepted''"
      and c: "glob (d @ ''/output/*fluctuations.csv'') = []"
      by blast+
    show ?thesis using a b c by (rule compile_loop_no_match)
  qed
  show "\<forall>e \<in> set ds. \<exists>st. scrape_frontmatter e ''status'' = Some st
           \<and> (str_lower st = ''accepted'' \<longrightarrow>
                  glob (e @ ''/output/*fluctuations.csv'') \<noteq> []
                  \<and> glob (e @ ''/output/*foldchange.csv'') \<noteq> [])"
    if "compile_loop scrape_frontmatter glob read_csv ds acc = Inr r"
    using that by (rule compile_loop_returns)
  show "log_posterior gammaln alpha I1 I2 negative
          = Inl (ValueError ''Negative values in I1 or I2'')"
    if "(\<exists>x \<in> set I1. x < 0) \<or> (\<exists>x \<in> set I2. x < 0)"
    using that by (rule log_posterior_rejects_negative)
  show "MWC_init effector_conc (Some ka) (Some ki) ep_ai n_sites log_transform
          = Inl (ValueError ''ka and/or ki cannot be zero.'')" if "ka = 0 \<or> ki = 0"
    using that by (rule MWC_init_rejects_zero)
  show "MWC_init (Some c) (Some ka) (Some ki) ep_ai (Some n) False
          = Inl (RuntimeError
              ((if c < 0 then ''effector_conc'' else if ka < 0 then ''ka''
                else if ki < 0 then ''ki'' else ''n_sites'') @ '' must be positive.''))"
    if "ka \<noteq> 0 \<and> ki \<noteq> 0 \<and> (c < 0 \<or> ka < 0 \<or> ki < 0 \<or> n < 0)"
  proof -
    from that have a: "ka \<noteq> 0" and b: "ki \<noteq> 0"
      and c: "c < 0 \<or> ka < 0 \<or> ki < 0 \<or> n < 0" by blast+
    show ?thesis by (rule MWC_init_rejects_negative [OF a b c])
  qed
  show "MWC_init (Some c) (Some ka) (Some ki) ep_ai (Some n) True
          = Inl (RuntimeError
              ((if c < 0 then ''effector_conc'' else ''n_sites'') @ '' must be positive.''))"
    if "ka \<noteq> 0 \<and> ki \<noteq> 0 \<and> (c < 0 \<or> n < 0)"
  proof -
    from that have a: "ka \<noteq> 0" and b: "ki \<noteq> 0" and c: "c < 0 \<or> n < 0" by blast+
    show ?thesis by (rule MWC_init_rejects_negative_log_transform [OF a b c])
  qed
  show "SimpleRepression_init R ep_r n_ns kwargs
          = Inl (RuntimeError ((if R < 0 then ''R'' else ''n_ns'') @ '' must be positive.''))"
    if "R < 0 \<or> n_ns < 0"
    using that by (rule SimpleRepression_init_rejects_negative)
  show "SimpleRepression_saturation self wpa num_pol ep_pol
          = Inl (RuntimeError
              ''Saturation is only defined for allosteric molecules. (`allosteric = True`)'')"
    if "\<not> allo self"
    using that by (rule saturation_not_allosteric)
qed

theorem failure_handling_witness:
  "compile_loop (\<lambda>d. if d = ''a_dilution'' then [''status'' \<mapsto> ''Accepted''] else Map.empty)
       (\<lambda>p. []) (\<lambda>p. Inr p) [''b_dilution'', ''a_dilution''] ([], [])
     = Inl (KeyError ''status'')
   \<and> compile_loop (\<lambda>d. if d = ''a_dilution'' then [''status'' \<mapsto> ''Accepted''] else Map.empty)
       (\<lambda>p. []) (\<lambda>p. Inr p) [''a_dilution'', ''b_dilution''] ([], [])
     = Inl IndexError
   \<and> log_posterior gammaln_floor 100 [3, 5] [2, - 4] True
     = Inl (ValueError ''Negative values in I1 or I2'')
   \<and> MWC_init (Some 50) (Some 139) (Some 0) (Some 4.5) (Some 2) False
     = Inl (ValueError ''ka and/or ki cannot be zero.'')
   \<and> MWC_init (Some 50) (Some 139) (Some (- 0.53)) (Some 4.5) (Some (- 2)) False
     = Inl (RuntimeError ''ki must be positive.'')
   \<and> MWC_init (Some 50) (Some 139) (Some (- 0.53)) (Some 4.5) (Some (- 2)) True
     = Inl (RuntimeError ''n_sites must be positive.'')
   \<and> SimpleRepression_init 260 (- 13.9) (- 1) [] = Inl (RuntimeError ''n_ns must be positive.'')
   \<and> SimpleRepression_saturation
       \<lparr>sr_R = 260, sr_ep_r = - 13.9, sr_n_ns = 4600000, sr_mwc = None\<rparr> True None 0
     = Inl (RuntimeError
         ''Saturation is only defined for allosteric molecules. (`allosteric = True`)'')"
  using failure_handling
      [where scrape_frontmatter
               = "\<lambda>d. if d = ''a_dilution'' then [''status'' \<mapsto> ''Accepted''] else Map.empty"
         and d = "''b_dilution''" and glob = "\<lambda>p. []" and read_csv = "\<lambda>p. Inr p"
         and rest = "[''a_dilution'']" and fluct_dfs = "[]" and fc_dfs = "[]"
         and status = "''x''" and ds = "[]" and acc = "([], [])" and r = "([], [])"
         and ?I1.0 = "[3, 5]" and ?I2.0 = "[2, - 4]" and gammaln = gammaln_floor
         and alpha = 100 and negative = True and ka = 139 and ki = 0
         and effector_conc = "Some 50" and ep_ai = "Some 4.5" and n_sites = "Some 2"
         and log_transform = False and c = 50 and n = 2 and R = 260 and ep_r = "- 13.9"
         and n_ns = "- 1" and kwargs = "[]"
         and self = "\<lparr>sr_R = 260, sr_ep_r = - 13.9, sr_n_ns = 4600000, sr_mwc = None\<rparr>"
         and wpa = True and num_pol = None and ep_pol = 0]
    failure_handling
      [where scrape_frontmatter
               = "\<lambda>d. if d = ''a_dilution'' then [''status'' \<mapsto> ''Accepted''] else Map.empty"
         and d = "''a_dilution''" and glob = "\<lambda>p. []" and read_csv = "\<lambda>p. Inr p"
         and rest = "[''b_dilution'']" and fluct_dfs = "[]" and fc_dfs = "[]"
         and status = "''Accepted''" and ds = "[]" and acc = "([], [])" and r = "([], [])"
         and ?I1.0 = "[3, 5]" and ?I2.0 = "[2, - 4]" and gammaln = gammaln_floor
         and alpha = 100 and negative = True and ka = 139 and ki = "- 0.53"
         and effector_conc = "Some 50" and ep_ai = "Some 4.5" and n_sites = "Some 2"
         and log_transform = False and c = 50 and n = "- 2" and R = 260 and ep_r = "- 13.9"
         and n_ns = "- 1" and kwargs = "[]"
         and self = "\<lparr>sr_R = 260, sr_ep_r = - 13.9, sr_n_ns = 4600000, sr_mwc = None\<rparr>"
         and wpa = True and num_pol = None and ep_pol = 0]
  by (simp add: lower_Accepted allo_def)

section \<open>Properties of bin\_by\_events\<close>

lemma sem_key_neq: "k @ ''_sem'' \<noteq> k"
  by (simp add: append_eq_conv_conj)

lemma store_bin_apply:
  "store_bin d i k m x =
     (if x = k then Some ((the (m k))[i - 1 := group_mean k d])
      else if x = k @ ''_sem'' then Some ((the (m (k @ ''_sem'')))[i - 1 := group_sem k d])
      else m x)"
  using sem_key_neq [of k]
  by (auto simp: store_bin_def Let_def group_mean_def group_sem_def)

lemma fold_store_bin_other:
  assumes "x \<notin> set ks" "x \<notin> (\<lambda>k. k @ ''_sem'') ` set ks"
  shows "fold (store_bin d i) ks m x = m x"
  using assms
proof (induction ks arbitrary: m)
  case Nil
  then show ?case by simp
next
  case (Cons a ks)
  have "fold (store_bin d i) (a # ks) m x = fold (store_bin d i) ks (store_bin d i a m) x"
    by simp
  also have "\<dots> = store_bin d i a m x"
    using Cons.prems by (intro Cons.IH) auto
  also have "\<dots> = m x"
    using Cons.prems by (simp add: store_bin_apply)
  finally show ?case .
qed

lemma fold_store_bin_mean:
  assumes "k \<in> set ks" "\<forall>k' \<in> set ks. k' @ ''_sem'' \<notin> set ks"
  shows "fold (store_bin d i) ks m k = Some ((the (m k))[i - 1 := group_mean k d])"
  using assms
proof (induction ks arbitrary: m)
  case Nil
  then show ?case by simp
next
  case (Cons a ks)
  have nc: "\<forall>k' \<in> set ks. k' @ ''_sem'' \<notin> set ks" using Cons.prems(2) by auto
  have k_not_sem: "k \<noteq> a @ ''_sem''" using Cons.prems by auto
  have step: "(the (store_bin d i a m k))[i - 1 := group_mean k d]
                = (the (m k))[i - 1 := group_mean k d]"
    using k_not_sem by (simp add: store_bin_apply)
  show ?case
  proof (cases "k \<in> set ks")
    case True
    have "fold (store_bin d i) (a # ks) m k = fold (store_bin d i) ks (store_bin d i a m) k"
      by simp
    also have "\<dots> = Some ((the (store_bin d i a m k))[i - 1 := group_mean k d])"
      by (rule Cons.IH [OF True nc])
    finally show ?thesis using step by simp
  next
    case False
    then have ka: "k = a" using Cons.prems(1) by simp
    have "k \<notin> (\<lambda>k. k @ ''_sem'') ` set ks" using Cons.prems by auto
    then have e: "fold (store_bin d i) ks (store_bin d i a m) k = store_bin d i a m k"
      using False by (intro fold_store_bin_other)
    have s: "store_bin d i a m k = Some ((the (m k))[i - 1 := group_mean k d])"
      by (simp add: ka store_bin_apply)
    show ?thesis using e s by simp
  qed
qed

lemma fold_store_bin_sem:
  assumes "k \<in> set ks" "\<forall>k' \<in> set ks. k' @ ''_sem'' \<notin> set ks"
  shows "fold (store_bin d i) ks m (k @ ''_sem'')
           = Some ((the (m (k @ ''_sem'')))[i - 1 := group_sem k d])"
  using assms
proof (induction ks arbitrary: m)
  case Nil
  then show ?case by simp
next
  case (Cons a ks)
  have nc: "\<forall>k' \<in> set ks. k' @ ''_sem'' \<notin> set ks" using Cons.prems(2) by auto
  have not_a: "k @ ''_sem'' \<noteq> a" using Cons.prems by auto
  have step: "(the (store_bin d i a m (k @ ''_sem'')))[i - 1 := group_sem k d]
                = (the (m (k @ ''_sem'')))[i - 1 := group_sem k d]"
    using not_a by (auto simp: store_bin_apply)
  show ?case
  proof (cases "k \<in> set ks")
    case True
    have "fold (store_bin d i) (a # ks) m (k @ ''_sem'')
            = fold (store_bin d i) ks (store_bin d i a m) (k @ ''_sem'')"
      by simp
    also have "\<dots> = Some ((the (store_bin d i a m (k @ ''_sem'')))[i - 1 := group_sem k d])"
      by (rule Cons.IH [OF True nc])
    finally show ?thesis using step by simp
  next
    case False
    then have ka: "k = a" using Cons.prems(1) by simp
    have "k @ ''_sem'' \<notin> set ks" using Cons.prems by auto
    moreover have "k @ ''_sem'' \<notin> (\<lambda>k. k @ ''_sem'') ` set ks" using False by auto
    ultimately have e: "fold (store_bin d i) ks (store_bin d i a m) (k @ ''_sem'')
                       = store_bin d i a m (k @ ''_sem'')"
      by (intro fold_store_bin_other)
    have s: "store_bin d i a m (k @ ''_sem'')
               = Some ((the (m (k @ ''_sem'')))[i - 1 := group_sem k d])"
      using sem_key_neq [of a] by (simp add: ka store_bin_apply)
    show ?thesis using e s by simp
  qed
qed

lemma fold_put_keys:
  "fold (\<lambda>k m. m(g k \<mapsto> z)) ks m x = (if x \<in> g ` set ks then Some z else m x)"
  by (induction ks arbitrary: m) auto

lemma np_arange_bins:
  assumes "0 < b"
  shows "np_arange 0 (n + b) b = map (\<lambda>i. i * b) [0..<Suc ((n + b - 1) div b)]"
proof -
  have "(n + b + b - 1) div b = Suc ((n + b - 1) div b)"
  proof -
    have e: "n + b + b - 1 = (n + b - 1) + b" using assms by simp
    have "(n + b - 1 + b) div b = (n + b - 1) div b + 1"
      using assms by (intro div_add_self2) simp
    then show ?thesis by (simp only: e Suc_eq_plus1)
  qed
  then show ?thesis by (simp add: np_arange_def)
qed

lemma iloc_is_group:
  assumes "0 < i"
  shows "iloc rows ((i - 1) * b) (i * b) = take b (drop ((i - 1) * b) rows)"
proof -
  have "i * b - (i - 1) * b = b" using assms by (cases i) simp_all
  then show ?thesis by (simp add: iloc_def drop_take)
qed


lemma fold_bins_entry:
  assumes upd: "\<And>i m. step i m x = Some ((the (m x))[i - 1 := V i])"
    and "m0 x = Some z" "j \<le> length z"
  shows "fold step [1..<Suc j] m0 x = Some (map (\<lambda>t. V (Suc t)) [0..<j] @ drop j z)"
  using assms(3)
proof (induction j)
  case 0
  then show ?case using assms(2) by simp
next
  case (Suc j)
  have j: "j < length z" using Suc.prems by simp
  define M where "M = fold step [1..<Suc j] m0"
  define A where "A = map (\<lambda>t. V (Suc t)) [0..<j]"
  have lenA: "length A = j" by (simp add: A_def)
  have M: "M x = Some (A @ drop j z)"
    unfolding M_def A_def using Suc.IH j by simp
  have "[1..<Suc (Suc j)] = [1..<Suc j] @ [Suc j]" by simp
  then have "fold step [1..<Suc (Suc j)] m0 x = step (Suc j) M x"
    unfolding M_def by (simp only: fold_append fold_simps comp_apply id_apply)
  also have "\<dots> = Some ((the (M x))[Suc j - 1 := V (Suc j)])"
    by (rule upd)
  also have "(the (M x))[Suc j - 1 := V (Suc j)] = A @ (drop j z)[0 := V (Suc j)]"
    by (simp add: M list_update_append lenA)
  also have "(drop j z)[0 := V (Suc j)] = V (Suc j) # drop (Suc j) z"
    using j by (simp add: Cons_nth_drop_Suc [symmetric])
  also have "A @ V (Suc j) # drop (Suc j) z
               = map (\<lambda>t. V (Suc t)) [0..<Suc j] @ drop (Suc j) z"
    by (simp add: A_def)
  finally show ?case .
qed

lemma fold_bins_untouched:
  assumes "\<And>i m. step i m x = m x"
  shows "fold step is m0 x = m0 x"
  by (induction "is" arbitrary: m0) (simp_all add: assms)

lemma groups_concat_take:
  "concat (map (\<lambda>j. take b (drop (j * b) xs)) [0..<n]) = take (n * b) xs"
proof (induction n)
  case 0
  then show ?case by simp
next
  case (Suc n)
  have "take (n * b) xs @ take b (drop (n * b) xs) = take (n * b + b) xs"
    by (simp add: take_add)
  then show ?case using Suc by (simp add: add.commute)
qed

lemma ceil_div_covers:
  fixes n b :: nat
  assumes "0 < b"
  shows "n \<le> ((n + b - 1) div b) * b" and "((n + b - 1) div b) * b < n + b"
proof -
  have le: "((n + b - 1) div b) * b \<le> n + b - 1" by (rule div_times_less_eq_dividend)
  then show "((n + b - 1) div b) * b < n + b" using assms by linarith
  have "n + b - 1 = ((n + b - 1) div b) * b + (n + b - 1) mod b" by simp
  moreover have "(n + b - 1) mod b < b" using assms by simp
  ultimately show "n \<le> ((n + b - 1) div b) * b" by linarith
qed

lemma event_groups_partition:
  assumes "0 < b"
  shows "concat (event_groups b xs) = xs"
    and "length (event_groups b xs) = (length xs + b - 1) div b"
    and "j < length (event_groups b xs) \<Longrightarrow> event_groups b xs ! j \<noteq> []"
    and "j < length (event_groups b xs) \<Longrightarrow> length (event_groups b xs ! j) \<le> b"
    and "Suc j < length (event_groups b xs) \<Longrightarrow> length (event_groups b xs ! j) = b"
proof -
  let ?G = "(length xs + b - 1) div b"
  show "concat (event_groups b xs) = xs"
    using ceil_div_covers(1) [OF assms, of "length xs"]
    by (simp add: event_groups_def groups_concat_take)
  show len: "length (event_groups b xs) = ?G" by (simp add: event_groups_def)
  {
    assume j: "j < length (event_groups b xs)"
    then have "Suc j \<le> ?G" by (simp add: len)
    then have "Suc j * b \<le> ?G * b" by (rule mult_le_mono1)
    then have "j * b + b < length xs + b"
      using ceil_div_covers(2) [OF assms, of "length xs"] by simp
    then have lt: "j * b < length xs" by simp
    have nth: "event_groups b xs ! j = take b (drop (j * b) xs)"
      using j by (simp add: event_groups_def)
    show "event_groups b xs ! j \<noteq> []" using lt assms by (simp add: nth)
    show "length (event_groups b xs ! j) \<le> b" by (simp add: nth)
  }
  {
    assume sj: "Suc j < length (event_groups b xs)"
    then have "Suc (Suc j) \<le> ?G" by (simp add: len)
    then have "Suc (Suc j) * b \<le> ?G * b" by (rule mult_le_mono1)
    then have "j * b + b + b < length xs + b"
      using ceil_div_covers(2) [OF assms, of "length xs"] by simp
    then have "j * b + b < length xs" by simp
    moreover have "event_groups b xs ! j = take b (drop (j * b) xs)"
      using sj by (simp add: event_groups_def)
    ultimately show "length (event_groups b xs ! j) = b" by simp
  }
qed


lemma groups_as_slices:
  assumes "\<And>t. t < (length xs + b - 1) div b \<Longrightarrow> D (Suc t) = take b (drop (t * b) xs)"
  shows "map (\<lambda>t. F (D (Suc t))) [0..<(length xs + b - 1) div b] = map F (event_groups b xs)"
  using assms by (simp add: event_groups_def)

lemma bin_by_events_run:
  assumes cols: "sortby \<in> set (df_columns df)" "set average \<subseteq> set (df_columns df)"
    and b: "0 < bin_size"
    and nc: "\<forall>k \<in> set average. k @ ''_sem'' \<notin> set average"
  shows "\<exists>averages.
           bin_by_events sort_values df bin_size sortby average = Inr averages
         \<and> (\<forall>k \<in> set average.
                averages k = Some (map (group_mean k)
                                    (event_groups bin_size (sort_values sortby (df_rows df)))
                                  @ [Finite 0])
              \<and> averages (k @ ''_sem'')
                  = Some (map (group_sem k)
                            (event_groups bin_size (sort_values sortby (df_rows df)))
                          @ [Finite 0]))
         \<and> (\<forall>x. x \<notin> set average \<and> x \<notin> (\<lambda>k. k @ ''_sem'') ` set average \<longrightarrow>
                averages x = None)"
proof -
  define sorted_df where "sorted_df = sort_values sortby (df_rows df)"
  define G where "G = (length sorted_df + bin_size - 1) div bin_size"
  define bins where "bins = np_arange 0 (length sorted_df + bin_size) bin_size"
  define zeros where "zeros = replicate (length bins) (Finite (0::real))"
  define averages0 where
    "averages0 = fold (\<lambda>k m. m(k \<mapsto> zeros)) average (Map.empty :: string \<rightharpoonup> npfloat list)"
  define averages1 where
    "averages1 = fold (\<lambda>k m. m(k @ ''_sem'' \<mapsto> zeros)) average averages0"
  define D where "D = (\<lambda>i. iloc sorted_df (bins ! (i - 1)) (bins ! i))"
  define step where "step = (\<lambda>i averages. fold (store_bin (D i) i) average averages)"
  have bins: "bins = map (\<lambda>i. i * bin_size) [0..<Suc G]"
    unfolding bins_def G_def by (rule np_arange_bins [OF b])
  have lenb: "length bins = Suc G" by (simp add: bins)
  have zeros: "zeros = replicate (Suc G) (Finite 0)" by (simp add: zeros_def lenb)
  have nomiss: "\<not> (1 < length bins \<and> (\<exists>k \<in> set average. k \<notin> set (df_columns df)))"
    using cols(2) by auto
  have bne: "bin_size \<noteq> 0" using b by simp
  have run: "bin_by_events sort_values df bin_size sortby average
               = Inr (fold step [1..<length bins] averages1)"
    unfolding bin_by_events_def Let_def
    unfolding sorted_df_def [symmetric] bins_def [symmetric] zeros_def [symmetric]
      averages0_def [symmetric] averages1_def [symmetric]
    unfolding step_def D_def
    using cols(1) bne nomiss by (simp only: if_False not_not if_True simp_thms)
  have a0: "averages0 x = (if x \<in> set average then Some zeros else None)" for x
    unfolding averages0_def
    using fold_put_keys [where g = "\<lambda>k. k" and z = zeros and ks = average
        and m = Map.empty and x = x]
    by simp
  have a1: "averages1 x = (if x \<in> (\<lambda>k. k @ ''_sem'') ` set average then Some zeros
                           else if x \<in> set average then Some zeros else None)" for x
    unfolding averages1_def
    using fold_put_keys [where g = "\<lambda>k. k @ ''_sem''" and z = zeros and ks = average
        and m = averages0 and x = x]
    by (simp add: a0)
  have slices: "D (Suc t) = take bin_size (drop (t * bin_size) sorted_df)" if "t < G" for t
  proof -
    have "bins ! t = t * bin_size" "bins ! Suc t = Suc t * bin_size"
      using that by (simp_all add: bins nth_append del: upt_Suc)
    then have "D (Suc t) = iloc sorted_df ((Suc t - 1) * bin_size) (Suc t * bin_size)"
      by (simp add: D_def)
    also have "\<dots> = take bin_size (drop ((Suc t - 1) * bin_size) sorted_df)"
      by (rule iloc_is_group) simp
    finally show ?thesis by simp
  qed
  have lz: "G \<le> length zeros" by (simp add: zeros)
  have dz: "drop G zeros = [Finite 0]"
  proof -
    have "drop G zeros = replicate (Suc G - G) (Finite 0)"
      unfolding zeros by (rule drop_replicate)
    then show ?thesis by simp
  qed
  have mean: "fold step [1..<Suc G] averages1 k
                = Some (map (group_mean k) (event_groups bin_size sorted_df) @ [Finite 0])"
    and sem: "fold step [1..<Suc G] averages1 (k @ ''_sem'')
                = Some (map (group_sem k) (event_groups bin_size sorted_df) @ [Finite 0])"
    if k: "k \<in> set average" for k
  proof -
    have um: "step i m k = Some ((the (m k))[i - 1 := group_mean k (D i)])" for i m
      unfolding step_def by (rule fold_store_bin_mean [OF k nc])
    have us: "step i m (k @ ''_sem'')
                = Some ((the (m (k @ ''_sem'')))[i - 1 := group_sem k (D i)])" for i m
      unfolding step_def by (rule fold_store_bin_sem [OF k nc])
    have k1: "averages1 k = Some zeros" using k by (simp add: a1)
    have k2: "averages1 (k @ ''_sem'') = Some zeros" using k by (simp add: a1)
    have gm: "map (\<lambda>t. group_mean k (D (Suc t))) [0..<G]
                = map (group_mean k) (event_groups bin_size sorted_df)"
      unfolding G_def by (rule groups_as_slices) (simp add: slices G_def)
    have gs: "map (\<lambda>t. group_sem k (D (Suc t))) [0..<G]
                = map (group_sem k) (event_groups bin_size sorted_df)"
      unfolding G_def by (rule groups_as_slices) (simp add: slices G_def)
    show "fold step [1..<Suc G] averages1 k
            = Some (map (group_mean k) (event_groups bin_size sorted_df) @ [Finite 0])"
      using fold_bins_entry [of step k "\<lambda>i. group_mean k (D i)" averages1 zeros G,
          OF um k1 lz]
      by (simp only: gm dz)
    show "fold step [1..<Suc G] averages1 (k @ ''_sem'')
            = Some (map (group_sem k) (event_groups bin_size sorted_df) @ [Finite 0])"
      using fold_bins_entry [of step "k @ ''_sem''" "\<lambda>i. group_sem k (D i)" averages1 zeros G,
          OF us k2 lz]
      by (simp only: gs dz)
  qed
  have other: "fold step [1..<Suc G] averages1 x = None"
    if "x \<notin> set average \<and> x \<notin> (\<lambda>k. k @ ''_sem'') ` set average" for x
  proof -
    have "step i m x = m x" for i m
      unfolding step_def using that by (intro fold_store_bin_other) simp_all
    then have "fold step [1..<Suc G] averages1 x = averages1 x"
      by (rule fold_bins_untouched)
    then show ?thesis using that by (simp add: a1)
  qed
  show ?thesis
    unfolding sorted_df_def [symmetric]
    using run mean sem other
    by (intro exI [of _ "fold step [1..<Suc G] averages1"]) (simp add: lenb)
qed

lemma arange_two_bins: "np_arange 0 (Suc (Suc 0)) (Suc 0) = [0, Suc 0]"
  by (simp add: np_arange_def)

text \<open>
  C7, as stated, promises for each column \<open>k\<close> of the \<open>average\<close> list the standard
  errors of \<open>k\<close> under the key \<open>k_sem\<close>. With \<open>average = ['a', 'a_sem']\<close> the key
  \<open>a_sem\<close> is also the key of the means of the column \<open>a_sem\<close>, which the loop
  stores last: on one row with \<open>a = 1\<close> and \<open>a_sem = 5\<close> the entry is 5, while the
  standard error of \<open>a\<close> in the group is 0.
\<close>

theorem bin_by_events_sem_key_counterexample:
  "map_sum id (\<lambda>averages. averages ''a_sem'')
     (bin_by_events (\<lambda>key. sort_key (\<lambda>r. r key))
        \<lparr>df_columns = [''a'', ''a_sem''],
         df_rows = [\<lambda>c. if c = ''a'' then 1 else 5]\<rparr> 1 ''a'' [''a'', ''a_sem''])
     = Inr (Some [Finite 5, Finite 0])
   \<and> group_sem ''a'' [\<lambda>c. if c = ''a'' then 1 else 5] = Finite 0"
  by (simp add: bin_by_events_def arange_two_bins Let_def store_bin_def iloc_def
        np_mean_def np_std_def group_sem_def)


lemma nonempty_group_values:
  assumes "g \<noteq> []"
  shows "group_mean k g = Finite (sum_list (map (\<lambda>r. r k) g) / real (length g))"
    and "group_sem k g
           = Finite (sqrt (sum_list (map (\<lambda>x. (x - sum_list (map (\<lambda>r. r k) g) / real (length g)) ^ 2)
                                         (map (\<lambda>r. r k) g)) / real (length g))
                     / sqrt (real (length g)))"
  using assms by (simp_all add: group_mean_def group_sem_def np_mean_def np_std_def Let_def)

text \<open>
  C7, amended. For a dataframe with at least one row that has the \<open>sortby\<close> and
  \<open>average\<close> columns, a positive \<open>bin_size\<close>, and an \<open>average\<close> list in which no
  name is another name followed by \<open>_sem\<close>: the rows are sorted ascending by
  \<open>sortby\<close> and cut into consecutive nonempty groups of \<open>bin_size\<close> rows, the last
  one holding what remains; the returned dict has exactly the keys \<open>k\<close> and
  \<open>k_sem\<close> for \<open>k\<close> in \<open>average\<close>, with the per-group means of column \<open>k\<close>
  under \<open>k\<close> and the per-group standard errors (standard deviation over the square
  root of the group size) under \<open>k_sem\<close>, each followed by one entry left at zero;
  every array has the length of \<open>np.arange(0, len(df) + bin_size, bin_size)\<close>.
\<close>

theorem bin_by_events_result:
  assumes "df_rows df \<noteq> []" "0 < bin_size"
    and "sortby \<in> set (df_columns df)" "set average \<subseteq> set (df_columns df)"
    and "\<forall>k \<in> set average. k @ ''_sem'' \<notin> set average"
    and "sorts_by sort_values sortby (df_rows df)"
  shows "\<exists>averages groups.
           groups = event_groups bin_size (sort_values sortby (df_rows df))
         \<and> sorted (map (\<lambda>r. r sortby) (sort_values sortby (df_rows df)))
         \<and> mset (sort_values sortby (df_rows df)) = mset (df_rows df)
         \<and> concat groups = sort_values sortby (df_rows df)
         \<and> (\<forall>j < length groups.
                groups ! j \<noteq> [] \<and> length (groups ! j) \<le> bin_size
              \<and> (Suc j < length groups \<longrightarrow> length (groups ! j) = bin_size))
         \<and> bin_by_events sort_values df bin_size sortby average = Inr averages
         \<and> dom averages = set average \<union> (\<lambda>k. k @ ''_sem'') ` set average
         \<and> (\<forall>k \<in> set average.
                averages k = Some (map (group_mean k) groups @ [Finite 0])
              \<and> averages (k @ ''_sem'') = Some (map (group_sem k) groups @ [Finite 0]))
         \<and> (\<forall>g \<in> set groups. \<forall>k.
                group_mean k g = Finite (sum_list (map (\<lambda>r. r k) g) / real (length g))
              \<and> group_sem k g
                  = Finite (sqrt (sum_list (map (\<lambda>x. (x - sum_list (map (\<lambda>r. r k) g)
                                                          / real (length g)) ^ 2)
                                             (map (\<lambda>r. r k) g)) / real (length g))
                            / sqrt (real (length g))))
         \<and> (\<forall>x arr. averages x = Some arr \<longrightarrow>
                length arr = length (np_arange 0 (length (df_rows df) + bin_size) bin_size)
              \<and> last arr = Finite 0)"
proof -
  define sorted_df where "sorted_df = sort_values sortby (df_rows df)"
  define groups where "groups = event_groups bin_size sorted_df"
  have srt: "sorted (map (\<lambda>r. r sortby) sorted_df)" and perm: "mset sorted_df = mset (df_rows df)"
    using assms(6) by (simp_all add: sorts_by_def sorted_df_def)
  have len: "length sorted_df = length (df_rows df)"
    using perm by (rule mset_eq_length)
  note part = event_groups_partition [OF assms(2), where xs = sorted_df, folded groups_def]
  obtain averages where run: "bin_by_events sort_values df bin_size sortby average = Inr averages"
    and vals: "\<forall>k \<in> set average.
                averages k = Some (map (group_mean k) groups @ [Finite 0])
              \<and> averages (k @ ''_sem'') = Some (map (group_sem k) groups @ [Finite 0])"
    and none: "\<forall>x. x \<notin> set average \<and> x \<notin> (\<lambda>k. k @ ''_sem'') ` set average \<longrightarrow>
                averages x = None"
    using bin_by_events_run [OF assms(3,4,2,5), of sort_values]
    unfolding groups_def sorted_df_def by blast
  have dom: "dom averages = set average \<union> (\<lambda>k. k @ ''_sem'') ` set average"
  proof (intro set_eqI iffI)
    fix x assume "x \<in> dom averages"
    then have "averages x \<noteq> None" by auto
    then have "\<not> (x \<notin> set average \<and> x \<notin> (\<lambda>k. k @ ''_sem'') ` set average)"
      using none [rule_format, of x] by (rule contrapos_nn)
    then show "x \<in> set average \<union> (\<lambda>k. k @ ''_sem'') ` set average"
      by (simp only: Un_iff de_Morgan_conj not_not)
  next
    fix x assume "x \<in> set average \<union> (\<lambda>k. k @ ''_sem'') ` set average"
    then show "x \<in> dom averages" using vals by auto
  qed
  have nonempty: "g \<noteq> []" if "g \<in> set groups" for g
  proof -
    from that obtain j where "j < length groups" "g = groups ! j"
      by (auto simp: in_set_conv_nth)
    then show ?thesis using part(3) by simp
  qed
  have lengths: "length arr = length (np_arange 0 (length (df_rows df) + bin_size) bin_size)
                   \<and> last arr = Finite 0"
    if "averages x = Some arr" for x arr
  proof -
    have "x \<in> dom averages" using that by auto
    then consider k where "k \<in> set average" "x = k" | k where "k \<in> set average" "x = k @ ''_sem''"
      unfolding dom by auto
    then have "(\<exists>f. arr = map f groups @ [Finite 0])"
    proof cases
      case 1
      then show ?thesis using vals that by auto
    next
      case 2
      then show ?thesis using vals that by auto
    qed
    then obtain f where arr: "arr = map f groups @ [Finite 0]" by blast
    have "length (np_arange 0 (length (df_rows df) + bin_size) bin_size)
            = Suc ((length (df_rows df) + bin_size - 1) div bin_size)"
      by (simp add: np_arange_bins [OF assms(2)])
    then show ?thesis by (simp add: arr part(2) len)
  qed
  show ?thesis
  proof (intro exI [of _ averages] exI [of _ groups] conjI allI impI ballI)
    show "groups = event_groups bin_size (sort_values sortby (df_rows df))"
      by (simp add: groups_def sorted_df_def)
    show "sorted (map (\<lambda>r. r sortby) (sort_values sortby (df_rows df)))"
      using srt by (simp add: sorted_df_def)
    show "mset (sort_values sortby (df_rows df)) = mset (df_rows df)"
      using perm by (simp add: sorted_df_def)
    show "concat groups = sort_values sortby (df_rows df)"
      using part(1) by (simp add: sorted_df_def)
    show "bin_by_events sort_values df bin_size sortby average = Inr averages" by (rule run)
    show "dom averages = set average \<union> (\<lambda>k. k @ ''_sem'') ` set average" by (rule dom)
  next
    fix j assume j: "j < length groups"
    show "groups ! j \<noteq> []" using j by (rule part(3))
    show "length (groups ! j) \<le> bin_size" using j by (rule part(4))
    assume "Suc j < length groups"
    then show "length (groups ! j) = bin_size" by (rule part(5))
  next
    fix k assume k: "k \<in> set average"
    show "averages k = Some (map (group_mean k) groups @ [Finite 0])" using vals k by blast
    show "averages (k @ ''_sem'') = Some (map (group_sem k) groups @ [Finite 0])"
      using vals k by blast
  next
    fix g k assume "g \<in> set groups"
    then have g: "g \<noteq> []" by (rule nonempty)
    show "group_mean k g = Finite (sum_list (map (\<lambda>r. r k) g) / real (length g))"
      by (rule nonempty_group_values(1) [OF g])
    show "group_sem k g
            = Finite (sqrt (sum_list (map (\<lambda>x. (x - sum_list (map (\<lambda>r. r k) g)
                                                    / real (length g)) ^ 2)
                                       (map (\<lambda>r. r k) g)) / real (length g))
                      / sqrt (real (length g)))"
      by (rule nonempty_group_values(2) [OF g])
  next
    fix x arr assume a: "averages x = Some arr"
    show "length arr = length (np_arange 0 (length (df_rows df) + bin_size) bin_size)"
      using lengths [OF a] by (rule conjunct1)
    show "last arr = Finite 0" using lengths [OF a] by (rule conjunct2)
  qed
qed


theorem bin_by_events_result_witness:
  "\<exists>averages.
     bin_by_events (\<lambda>key. sort_key (\<lambda>r. r key))
       \<lparr>df_columns = [''summed'', ''fluct''],
        df_rows = [\<lambda>c. if c = ''summed'' then 3 else 1,
                   \<lambda>c. if c = ''summed'' then 1 else 4,
                   \<lambda>c. if c = ''summed'' then 2 else 9]\<rparr>
       2 ''summed'' [''summed'', ''fluct'']
       = Inr averages
   \<and> averages ''summed'' = Some [Finite (3 / 2), Finite 3, Finite 0]
   \<and> averages ''fluct'' = Some [Finite (13 / 2), Finite 1, Finite 0]
   \<and> dom averages = {''summed'', ''fluct'', ''summed_sem'', ''fluct_sem''}"
proof -
  let ?rows = "[\<lambda>c. if c = ''summed'' then 3 else 1,
                \<lambda>c. if c = ''summed'' then 1 else 4,
                \<lambda>c. if c = ''summed'' then 2 else (9::real)] :: row list"
  let ?df = "\<lparr>df_columns = [''summed'', ''fluct''], df_rows = ?rows\<rparr>"
  let ?sv = "\<lambda>key. sort_key (\<lambda>r :: row. r key)"
  have h1: "df_rows ?df \<noteq> []" by simp
  have h2: "(0::nat) < 2" by simp
  have h3: "''summed'' \<in> set (df_columns ?df)" by simp
  have h4: "set [''summed'', ''fluct''] \<subseteq> set (df_columns ?df)" by simp
  have h5: "\<forall>k \<in> set [''summed'', ''fluct'']. k @ ''_sem'' \<notin> set [''summed'', ''fluct'']"
    by simp
  have h6: "sorts_by ?sv ''summed'' (df_rows ?df)"
    unfolding sorts_by_def by (simp only: sorted_sort_key mset_sort simp_thms)
  have sorted_rows: "?sv ''summed'' (df_rows ?df)
                       = [\<lambda>c. if c = ''summed'' then 1 else 4,
                          \<lambda>c. if c = ''summed'' then 2 else 9,
                          \<lambda>c. if c = ''summed'' then 3 else 1]"
    by simp
  have groups: "event_groups 2 (?sv ''summed'' (df_rows ?df))
                  = [[\<lambda>c. if c = ''summed'' then 1 else 4,
                      \<lambda>c. if c = ''summed'' then 2 else 9],
                     [\<lambda>c. if c = ''summed'' then 3 else 1]]"
    unfolding sorted_rows by (simp add: event_groups_def)
  from bin_by_events_result [OF h1 h2 h3 h4 h5 h6]
  obtain averages groups where
    g: "groups = event_groups 2 (?sv ''summed'' (df_rows ?df))"
    and run: "bin_by_events ?sv ?df 2 ''summed'' [''summed'', ''fluct''] = Inr averages"
    and dom: "dom averages = set [''summed'', ''fluct'']
                \<union> (\<lambda>k. k @ ''_sem'') ` set [''summed'', ''fluct'']"
    and vals: "\<forall>k \<in> set [''summed'', ''fluct''].
                 averages k = Some (map (group_mean k) groups @ [Finite 0])
               \<and> averages (k @ ''_sem'') = Some (map (group_sem k) groups @ [Finite 0])"
    by (elim exE conjE) (rule that; assumption)
  have v1: "averages ''summed'' = Some (map (group_mean ''summed'') groups @ [Finite 0])"
    using vals [rule_format, of "''summed''"] by simp
  have v2: "averages ''fluct'' = Some (map (group_mean ''fluct'') groups @ [Finite 0])"
    using vals [rule_format, of "''fluct''"] by simp
  have s: "averages ''summed'' = Some [Finite (3 / 2), Finite 3, Finite 0]"
    unfolding v1 g groups by (simp add: group_mean_def np_mean_def)
  have f: "averages ''fluct'' = Some [Finite (13 / 2), Finite 1, Finite 0]"
    unfolding v2 g groups by (simp add: group_mean_def np_mean_def)
  have d: "dom averages = {''summed'', ''fluct'', ''summed_sem'', ''fluct_sem''}"
    unfolding dom by auto
  show ?thesis using run s f d by (intro exI [of _ averages] conjI)
qed

end
